theory Spec2Isabelle
  imports Complex_Main
begin

section \<open>Numbers, decimals and dates\<close>

text \<open>
  A JavaScript \<open>number\<close>. A finite number is identified with the decimal value that its
  \<open>toString()\<close> prints (the shortest decimal that reads back as the same number), which is
  the value \<open>new Prisma.Decimal(n)\<close> takes; \<open>-0\<close> and \<open>0\<close> are the same value here.
\<close>

datatype number = Number rat | NaN | Infinity | NegInfinity

text \<open>The comparison \<open>n <= 0\<close>: false for \<open>NaN\<close>.\<close>

fun number_le_zero :: "number \<Rightarrow> bool" where
  "number_le_zero (Number q) = (q \<le> 0)"
| "number_le_zero NaN = False"
| "number_le_zero Infinity = False"
| "number_le_zero NegInfinity = True"

text \<open>The comparison \<open>n > c\<close> of a number with a finite decimal value.\<close>

fun number_exceeds :: "number \<Rightarrow> rat \<Rightarrow> bool" where
  "number_exceeds (Number q) c = (c < q)"
| "number_exceeds NaN c = False"
| "number_exceeds Infinity c = True"
| "number_exceeds NegInfinity c = False"

text \<open>
  Powers with an integer exponent, the number of digits of a positive integer in a base, and
  the exponent of a positive rational: \<open>ilog b x\<close> is the \<open>e\<close> with
  \<open>b^e \<le> x < b^(e+1)\<close>.
\<close>

definition int_power :: "rat \<Rightarrow> int \<Rightarrow> rat" where
  "int_power b k = (if 0 \<le> k then b ^ nat k else 1 / b ^ nat (- k))"

function digits_in_base :: "int \<Rightarrow> int \<Rightarrow> int" where
  "digits_in_base b a = (if 0 < a \<and> 1 < b then 1 + digits_in_base b (a div b) else 0)"
  by pat_completeness auto
termination
  by (relation "measure (\<lambda>(b, a). nat a)") (auto simp add: int_div_less_self)

declare digits_in_base.simps [simp del]

definition ilog :: "int \<Rightarrow> rat \<Rightarrow> int" where
  "ilog b x = (if 1 \<le> x then digits_in_base b \<lfloor>x\<rfloor> - 1
               else - digits_in_base b (\<lceil>1 / x\<rceil> - 1))"

text \<open>
  A \<open>Prisma.Decimal\<close>, the \<open>Decimal\<close> of decimal.js: a decimal value of any number of
  digits, or one of three values that are not finite. Construction from a number,
  comparison and \<open>toDecimalPlaces\<close> are exact. The result of an arithmetic operation is
  rounded to \<open>precision\<close> significant digits in the rounding mode of the configuration;
  the repository leaves the configuration of the library as it is: 20 significant digits,
  \<open>ROUND_HALF_UP\<close>.
\<close>

datatype decimal = Decimal rat | DecimalNaN | DecimalInfinity | DecimalNegInfinity

definition Decimal_precision :: nat where
  "Decimal_precision = 20"

text \<open>
  Rounding to \<open>sd\<close> significant digits, a tie going away from zero: to the nearest
  multiple of the unit of the last of the \<open>sd\<close> digits that start at the leading one.
\<close>

definition round_significant :: "nat \<Rightarrow> rat \<Rightarrow> rat" where
  "round_significant sd q =
     (if q = 0 then 0
      else let unit = int_power 10 (ilog 10 \<bar>q\<bar> + 1 - int sd)
           in sgn q * of_int \<lfloor>\<bar>q\<bar> / unit + 1 / 2\<rfloor> * unit)"

fun Decimal_new :: "number \<Rightarrow> decimal" where
  "Decimal_new (Number q) = Decimal q"
| "Decimal_new NaN = DecimalNaN"
| "Decimal_new Infinity = DecimalInfinity"
| "Decimal_new NegInfinity = DecimalNegInfinity"

fun Decimal_greaterThan :: "decimal \<Rightarrow> decimal \<Rightarrow> bool" where
  "Decimal_greaterThan DecimalNaN y = False"
| "Decimal_greaterThan x DecimalNaN = False"
| "Decimal_greaterThan (Decimal a) (Decimal b) = (b < a)"
| "Decimal_greaterThan DecimalInfinity DecimalInfinity = False"
| "Decimal_greaterThan DecimalInfinity y = True"
| "Decimal_greaterThan x DecimalInfinity = False"
| "Decimal_greaterThan DecimalNegInfinity y = False"
| "Decimal_greaterThan (Decimal a) DecimalNegInfinity = True"

fun signed_infinity :: "rat \<Rightarrow> decimal" where
  "signed_infinity s = (if s = 0 then DecimalNaN else if 0 < s then DecimalInfinity else DecimalNegInfinity)"

fun Decimal_times :: "decimal \<Rightarrow> decimal \<Rightarrow> decimal" where
  "Decimal_times DecimalNaN y = DecimalNaN"
| "Decimal_times x DecimalNaN = DecimalNaN"
| "Decimal_times (Decimal a) (Decimal b) = Decimal (round_significant Decimal_precision (a * b))"
| "Decimal_times DecimalInfinity (Decimal b) = signed_infinity b"
| "Decimal_times DecimalNegInfinity (Decimal b) = signed_infinity (- b)"
| "Decimal_times (Decimal a) DecimalInfinity = signed_infinity a"
| "Decimal_times (Decimal a) DecimalNegInfinity = signed_infinity (- a)"
| "Decimal_times DecimalInfinity DecimalInfinity = DecimalInfinity"
| "Decimal_times DecimalInfinity DecimalNegInfinity = DecimalNegInfinity"
| "Decimal_times DecimalNegInfinity DecimalInfinity = DecimalNegInfinity"
| "Decimal_times DecimalNegInfinity DecimalNegInfinity = DecimalInfinity"

text \<open>
  Rounding mode \<open>ROUND_HALF_UP\<close> of the decimal library: to the nearest multiple of
  \<open>10^-dp\<close>, a tie going away from zero.
\<close>

definition round_half_up :: "nat \<Rightarrow> rat \<Rightarrow> rat" where
  "round_half_up dp q = sgn q * of_int \<lfloor>\<bar>q\<bar> * 10 ^ dp + 1 / 2\<rfloor> / 10 ^ dp"

fun toDecimalPlaces_ROUND_HALF_UP :: "nat \<Rightarrow> decimal \<Rightarrow> decimal" where
  "toDecimalPlaces_ROUND_HALF_UP dp (Decimal q) = Decimal (round_half_up dp q)"
| "toDecimalPlaces_ROUND_HALF_UP dp d = d"

text \<open>
  \<open>Decimal.toNumber()\<close> is \<open>+this\<close>: the decimal is printed with all its digits and
  the string is read as a number, which gives the binary64 number nearest to the decimal,
  a tie going to the one with an even significand. \<open>binary64 x\<close> is that number for a
  positive \<open>x\<close>, as a rational and without the upper bound of the exponent: 53 significant
  bits, and below \<open>2^-1022\<close> the multiples of \<open>2^-1074\<close>.
\<close>

definition round_half_even :: "rat \<Rightarrow> int" where
  "round_half_even x =
     (let f = \<lfloor>x\<rfloor>; d = x - of_int f
      in if d < 1 / 2 then f else if 1 / 2 < d then f + 1 else if even f then f else f + 1)"

definition binary64 :: "rat \<Rightarrow> rat" where
  "binary64 x = (let e = max (ilog 2 x) (- 1022); ulp = int_power 2 (e - 52)
                 in of_int (round_half_even (x / ulp)) * ulp)"

text \<open>
  The decimal that \<open>Number::toString\<close> prints for a positive binary64 number \<open>x\<close>, which
  is the value a finite \<open>number\<close> stands for: the decimal of the fewest significant digits
  \<open>n\<close> that reads back as \<open>x\<close>, the one nearest to \<open>x\<close> if there are two (the even one
  on a tie). \<open>k\<close> is the position of the leading digit of \<open>x\<close>; seventeen digits always
  suffice.
\<close>

function shortest_from :: "int \<Rightarrow> int \<Rightarrow> rat \<Rightarrow> rat" where
  "shortest_from n k x =
     (if 17 < n then x
      else let unit = int_power 10 (k - n); s = \<lfloor>x / unit\<rfloor>;
               lo = of_int s * unit; hi = lo + unit;
               lo_ok = (binary64 lo = x); hi_ok = (binary64 hi = x)
           in if lo_ok \<and> hi_ok
              then (if x - lo < hi - x then lo else if hi - x < x - lo then hi
                    else if even s then lo else hi)
              else if lo_ok then lo
              else if hi_ok then hi
              else shortest_from (n + 1) k x)"
  by pat_completeness auto
termination
  by (relation "measure (\<lambda>(n, k, x). nat (18 - n))") auto

declare shortest_from.simps [simp del]

definition Number_toString_value :: "rat \<Rightarrow> rat" where
  "Number_toString_value x = shortest_from 1 (ilog 10 x + 1) x"

definition Decimal_toNumber :: "rat \<Rightarrow> number" where
  "Decimal_toNumber q =
     (if q = 0 then Number 0
      else let r = binary64 \<bar>q\<bar>
           in if 1023 < ilog 2 r then (if 0 < q then Infinity else NegInfinity)
              else if r = 0 then Number 0
              else Number (sgn q * Number_toString_value r))"

text \<open>A JavaScript \<open>Date\<close>: a time value in milliseconds, or the invalid date.\<close>

datatype date = Date int | InvalidDate


section \<open>The entity store\<close>

datatype cliente_tipo = HOTEL | SALUD | CASA

record cliente =
  cliente_nombre :: string
  tipo :: cliente_tipo
  direccion :: string
  tarifa_por_m3 :: rat

record vehiculo =
  matricula :: string
  capacidad_max_m3 :: rat
  consumo_combustible_litros :: rat

record trabajador =
  trabajador_nombre :: string
  rol :: string
  salario_base :: rat

text \<open>
  A persisted service record. The decimal columns hold finite decimals and the date column
  a valid date; the store keeps the values it is given.
\<close>

record servicio_recogida =
  servicio_id :: int
  clienteId :: int
  vehiculoId :: int
  trabajadorId :: int
  fecha :: int
  volumen_recogido_m3 :: rat
  costo_servicio :: rat

text \<open>
  The tables, by identifier. \<open>next_id\<close> is the identifier the store gives to the next
  service record it creates.
\<close>

record store =
  clientes :: "int \<rightharpoonup> cliente"
  vehiculos :: "int \<rightharpoonup> vehiculo"
  trabajadores :: "int \<rightharpoonup> trabajador"
  servicios :: "int \<rightharpoonup> servicio_recogida"
  next_id :: int

datatype model = ClienteModel | VehiculoModel | TrabajadorModel | ServicioRecogidaModel

datatype db_call =
    FindUnique model int
  | Create model
  | Update model int
  | Delete model int

text \<open>
  The state an operation runs in: the tables, the calls made on the store so far, and
  whether the store refuses the write of this operation for a reason of its own
  (connectivity, an unexpected constraint). Lookups are answered.
\<close>

record prisma_client =
  tables :: store
  calls :: "db_call list"
  store_fails :: bool

definition called :: "db_call \<Rightarrow> prisma_client \<Rightarrow> prisma_client" where
  "called c p = p\<lparr>calls := calls p @ [c]\<rparr>"

definition vehiculo_findUnique :: "int \<Rightarrow> prisma_client \<Rightarrow> vehiculo option \<times> prisma_client" where
  "vehiculo_findUnique i p = (vehiculos (tables p) i, called (FindUnique VehiculoModel i) p)"

definition cliente_findUnique :: "int \<Rightarrow> prisma_client \<Rightarrow> cliente option \<times> prisma_client" where
  "cliente_findUnique i p = (clientes (tables p) i, called (FindUnique ClienteModel i) p)"

definition trabajador_findUnique :: "int \<Rightarrow> prisma_client \<Rightarrow> trabajador option \<times> prisma_client" where
  "trabajador_findUnique i p = (trabajadores (tables p) i, called (FindUnique TrabajadorModel i) p)"

definition servicioRecogida_findUnique ::
  "int \<Rightarrow> prisma_client \<Rightarrow> servicio_recogida option \<times> prisma_client" where
  "servicioRecogida_findUnique i p =
     (servicios (tables p) i, called (FindUnique ServicioRecogidaModel i) p)"

text \<open>
  The data handed to \<open>prisma.servicioRecogida.create\<close> and \<open>update\<close>. In an update an
  undefined \<open>fecha\<close> leaves the column as it is.
\<close>

record servicio_write =
  w_clienteId :: int
  w_vehiculoId :: int
  w_trabajadorId :: int
  w_fecha :: "date option"
  w_volumen_recogido_m3 :: decimal
  w_costo_servicio :: decimal

text \<open>
  The write calls throw (\<open>None\<close>) when the store fails, when a value is not one the column
  can hold (a decimal that is not finite, an invalid or missing date), and, for update and
  delete, when there is no record under the identifier.
\<close>

definition servicioRecogida_create ::
  "servicio_write \<Rightarrow> prisma_client \<Rightarrow> servicio_recogida option \<times> prisma_client" where
  "servicioRecogida_create d p =
     (let p' = called (Create ServicioRecogidaModel) p in
      if store_fails p then (None, p')
      else case (w_fecha d, w_volumen_recogido_m3 d, w_costo_servicio d) of
        (Some (Date t), Decimal v, Decimal c) \<Rightarrow>
          (let i = next_id (tables p);
               s = \<lparr>servicio_id = i, clienteId = w_clienteId d, vehiculoId = w_vehiculoId d,
                    trabajadorId = w_trabajadorId d, fecha = t,
                    volumen_recogido_m3 = v, costo_servicio = c\<rparr>
           in (Some s,
               p'\<lparr>tables := (tables p)\<lparr>servicios := (servicios (tables p))(i \<mapsto> s),
                                           next_id := i + 1\<rparr>\<rparr>))
      | _ \<Rightarrow> (None, p'))"

definition servicioRecogida_update ::
  "int \<Rightarrow> servicio_write \<Rightarrow> prisma_client \<Rightarrow> servicio_recogida option \<times> prisma_client" where
  "servicioRecogida_update i d p =
     (let p' = called (Update ServicioRecogidaModel i) p in
      if store_fails p then (None, p')
      else case (servicios (tables p) i, w_fecha d, w_volumen_recogido_m3 d, w_costo_servicio d) of
        (Some old, Some InvalidDate, Decimal v, Decimal c) \<Rightarrow> (None, p')
      | (Some old, f, Decimal v, Decimal c) \<Rightarrow>
          (let s = \<lparr>servicio_id = i, clienteId = w_clienteId d, vehiculoId = w_vehiculoId d,
                    trabajadorId = w_trabajadorId d,
                    fecha = (case f of Some (Date t) \<Rightarrow> t | _ \<Rightarrow> fecha old),
                    volumen_recogido_m3 = v, costo_servicio = c\<rparr>
           in (Some s, p'\<lparr>tables := (tables p)\<lparr>servicios := (servicios (tables p))(i \<mapsto> s)\<rparr>\<rparr>))
      | _ \<Rightarrow> (None, p'))"

definition servicioRecogida_delete ::
  "int \<Rightarrow> prisma_client \<Rightarrow> servicio_recogida option \<times> prisma_client" where
  "servicioRecogida_delete i p =
     (let p' = called (Delete ServicioRecogidaModel i) p in
      if store_fails p then (None, p')
      else case servicios (tables p) i of
        None \<Rightarrow> (None, p')
      | Some s \<Rightarrow> (Some s, p'\<lparr>tables := (tables p)\<lparr>servicios := (servicios (tables p))(i := None)\<rparr>\<rparr>))"

text \<open>The calls made between two states, and the calls that write.\<close>

definition new_calls :: "prisma_client \<Rightarrow> prisma_client \<Rightarrow> db_call list" where
  "new_calls p p' = drop (length (calls p)) (calls p')"

fun is_write :: "db_call \<Rightarrow> bool" where
  "is_write (FindUnique m i) = False"
| "is_write (Create m) = True"
| "is_write (Update m i) = True"
| "is_write (Delete m i) = True"

section \<open>Errors\<close>

text \<open>
  The workflow throws plain \<open>Error\<close> objects; each constructor is one message of the source,
  with the values the message interpolates:
  \<^item> \<open>VolumenNoPositivo\<close>: "El volumen recogido debe ser un valor positivo."
  \<^item> \<open>NoEncontrado m i\<close>: "<entity> con ID <i> no encontrado."
  \<^item> \<open>ExcedeCapacidad v c\<close>: "El volumen recogido (<v> m3) excede la capacidad maxima del
    vehiculo (<c> m3)."
  \<^item> \<open>NoSePudoCrear\<close>: "No se pudo crear el servicio de recogida debido a un error interno."
  \<^item> \<open>NoSePudoActualizar\<close>: "No se pudo actualizar el servicio de recogida."
  \<^item> \<open>NoSePudoEliminar\<close>: "No se pudo eliminar el servicio de recogida."
\<close>

datatype error =
    VolumenNoPositivo
  | NoEncontrado model int
  | ExcedeCapacidad number rat
  | NoSePudoCrear
  | NoSePudoActualizar
  | NoSePudoEliminar

text \<open>The error taxonomy of the specification, and the kind each message falls under.\<close>

datatype error_kind = ValidationError | NotFoundError | CapacityExceededError | PersistenceError

fun kind :: "error \<Rightarrow> error_kind" where
  "kind VolumenNoPositivo = ValidationError"
| "kind (NoEncontrado m i) = NotFoundError"
| "kind (ExcedeCapacidad v c) = CapacityExceededError"
| "kind NoSePudoCrear = PersistenceError"
| "kind NoSePudoActualizar = PersistenceError"
| "kind NoSePudoEliminar = PersistenceError"

section \<open>The service record workflow\<close>

record CreateServicioRecogidaData =
  c_clienteId :: int
  c_vehiculoId :: int
  c_trabajadorId :: int
  c_fecha :: date
  c_volumen_recogido_m3 :: number

definition crearServicioRecogida ::
  "CreateServicioRecogidaData \<Rightarrow> prisma_client \<Rightarrow> (error + servicio_recogida) \<times> prisma_client" where
  "crearServicioRecogida data p0 =
     (if number_le_zero (c_volumen_recogido_m3 data) then (Inl VolumenNoPositivo, p0)
      else
       (case vehiculo_findUnique (c_vehiculoId data) p0 of
          (None, p1) \<Rightarrow> (Inl (NoEncontrado VehiculoModel (c_vehiculoId data)), p1)
        | (Some vehiculo, p1) \<Rightarrow>
           (let volumenRecogidoDecimal = Decimal_new (c_volumen_recogido_m3 data) in
            if Decimal_greaterThan volumenRecogidoDecimal (Decimal (capacidad_max_m3 vehiculo))
            then (Inl (ExcedeCapacidad (c_volumen_recogido_m3 data) (capacidad_max_m3 vehiculo)), p1)
            else
             (case cliente_findUnique (c_clienteId data) p1 of
                (None, p2) \<Rightarrow> (Inl (NoEncontrado ClienteModel (c_clienteId data)), p2)
              | (Some cliente, p2) \<Rightarrow>
                 (case trabajador_findUnique (c_trabajadorId data) p2 of
                    (None, p3) \<Rightarrow> (Inl (NoEncontrado TrabajadorModel (c_trabajadorId data)), p3)
                  | (Some trabajador, p3) \<Rightarrow>
                     (let costoServicio = toDecimalPlaces_ROUND_HALF_UP 2
                            (Decimal_times volumenRecogidoDecimal (Decimal (tarifa_por_m3 cliente)))
                      in
                       (case servicioRecogida_create
                              \<lparr>w_clienteId = c_clienteId data, w_vehiculoId = c_vehiculoId data,
                               w_trabajadorId = c_trabajadorId data, w_fecha = Some (c_fecha data),
                               w_volumen_recogido_m3 = volumenRecogidoDecimal,
                               w_costo_servicio = costoServicio\<rparr> p3 of
                          (None, p4) \<Rightarrow> (Inl NoSePudoCrear, p4)
                        | (Some nuevoServicio, p4) \<Rightarrow> (Inr nuevoServicio, p4))))))))"

record UpdateServicioRecogidaData =
  u_clienteId :: "int option"
  u_vehiculoId :: "int option"
  u_trabajadorId :: "int option"
  u_fecha :: "date option"
  u_volumen_recogido_m3 :: "number option"

text \<open>The operator \<open>a ?? b\<close>: \<open>b\<close> when \<open>a\<close> is undefined.\<close>

fun nullish :: "'a option \<Rightarrow> 'a \<Rightarrow> 'a" where
  "nullish (Some a) b = a"
| "nullish None b = b"

text \<open>
  \<open>toNumber\<close> is \<open>Decimal.toNumber()\<close>, the conversion of a stored decimal to a JavaScript
  number; it is a parameter of the workflow, and \<open>Decimal_toNumber\<close> is the conversion
  that the library makes.
\<close>

definition actualizarServicioRecogida ::
  "(rat \<Rightarrow> number) \<Rightarrow> int \<Rightarrow> UpdateServicioRecogidaData \<Rightarrow> prisma_client
     \<Rightarrow> (error + servicio_recogida) \<times> prisma_client" where
  "actualizarServicioRecogida toNumber i data p0 =
     (case servicioRecogida_findUnique i p0 of
        (None, p1) \<Rightarrow> (Inl (NoEncontrado ServicioRecogidaModel i), p1)
      | (Some servicioExistente, p1) \<Rightarrow>
         (let finalClienteId = nullish (u_clienteId data) (clienteId servicioExistente);
              finalVehiculoId = nullish (u_vehiculoId data) (vehiculoId servicioExistente);
              finalTrabajadorId = nullish (u_trabajadorId data) (trabajadorId servicioExistente);
              finalVolumenRecogido = nullish (u_volumen_recogido_m3 data)
                                       (toNumber (volumen_recogido_m3 servicioExistente))
          in
          if number_le_zero finalVolumenRecogido then (Inl VolumenNoPositivo, p1)
          else
           (case vehiculo_findUnique finalVehiculoId p1 of
              (None, p2) \<Rightarrow> (Inl (NoEncontrado VehiculoModel finalVehiculoId), p2)
            | (Some vehiculo, p2) \<Rightarrow>
               (let volumenRecogidoDecimal = Decimal_new finalVolumenRecogido in
                if Decimal_greaterThan volumenRecogidoDecimal (Decimal (capacidad_max_m3 vehiculo))
                then (Inl (ExcedeCapacidad finalVolumenRecogido (capacidad_max_m3 vehiculo)), p2)
                else
                 (case cliente_findUnique finalClienteId p2 of
                    (None, p3) \<Rightarrow> (Inl (NoEncontrado ClienteModel finalClienteId), p3)
                  | (Some cliente, p3) \<Rightarrow>
                     (case trabajador_findUnique finalTrabajadorId p3 of
                        (None, p4) \<Rightarrow> (Inl (NoEncontrado TrabajadorModel finalTrabajadorId), p4)
                      | (Some trabajador, p4) \<Rightarrow>
                         (let costoServicio = toDecimalPlaces_ROUND_HALF_UP 2
                                (Decimal_times volumenRecogidoDecimal (Decimal (tarifa_por_m3 cliente)))
                          in
                           (case servicioRecogida_update i
                                  \<lparr>w_clienteId = finalClienteId, w_vehiculoId = finalVehiculoId,
                                   w_trabajadorId = finalTrabajadorId, w_fecha = u_fecha data,
                                   w_volumen_recogido_m3 = volumenRecogidoDecimal,
                                   w_costo_servicio = costoServicio\<rparr> p4 of
                              (None, p5) \<Rightarrow> (Inl NoSePudoActualizar, p5)
                            | (Some servicioActualizado, p5) \<Rightarrow>
                                (Inr servicioActualizado, p5)))))))))"

definition eliminarServicioRecogida ::
  "int \<Rightarrow> prisma_client \<Rightarrow> (error + servicio_recogida) \<times> prisma_client" where
  "eliminarServicioRecogida i p0 =
     (case servicioRecogida_delete i p0 of
        (None, p1) \<Rightarrow> (Inl NoSePudoEliminar, p1)
      | (Some servicioEliminado, p1) \<Rightarrow> (Inr servicioEliminado, p1))"


text \<open>
  The checks that \<open>crearServicioRecogida\<close> and \<open>actualizarServicioRecogida\<close> make on
  the effective values of a request, with the comparisons of the source (\<open>v <= 0\<close> and
  \<open>greaterThan\<close>): the error of the first check that refuses, or \<open>None\<close> when none
  does.
\<close>

definition workflow_checks :: "store \<Rightarrow> number \<Rightarrow> int \<Rightarrow> int \<Rightarrow> int \<Rightarrow> error option" where
  "workflow_checks st v vid cid tid =
     (if number_le_zero v then Some VolumenNoPositivo
      else case vehiculos st vid of
        None \<Rightarrow> Some (NoEncontrado VehiculoModel vid)
      | Some veh \<Rightarrow>
          if number_exceeds v (capacidad_max_m3 veh)
          then Some (ExcedeCapacidad v (capacidad_max_m3 veh))
          else if clientes st cid = None then Some (NoEncontrado ClienteModel cid)
          else if trabajadores st tid = None then Some (NoEncontrado TrabajadorModel tid)
          else None)"

text \<open>
  The validation chain in the words of the specification: the volume is strictly positive,
  the vehicle exists, the volume does not exceed the capacity of the vehicle, the client
  exists, the worker exists. A value that is not a number is neither strictly positive nor
  within a capacity.
\<close>

fun strictly_positive :: "number \<Rightarrow> bool" where
  "strictly_positive (Number q) = (0 < q)"
| "strictly_positive NaN = False"
| "strictly_positive Infinity = True"
| "strictly_positive NegInfinity = False"

fun within_capacity :: "number \<Rightarrow> rat \<Rightarrow> bool" where
  "within_capacity (Number q) c = (q \<le> c)"
| "within_capacity NaN c = False"
| "within_capacity Infinity c = False"
| "within_capacity NegInfinity c = True"

definition spec_validation_chain :: "store \<Rightarrow> number \<Rightarrow> int \<Rightarrow> int \<Rightarrow> int \<Rightarrow> error option" where
  "spec_validation_chain st v vid cid tid =
     (if strictly_positive v
      then (case vehiculos st vid of
              None \<Rightarrow> Some (NoEncontrado VehiculoModel vid)
            | Some veh \<Rightarrow>
                if within_capacity v (capacidad_max_m3 veh)
                then (if clientes st cid = None then Some (NoEncontrado ClienteModel cid)
                      else if trabajadores st tid = None then Some (NoEncontrado TrabajadorModel tid)
                      else None)
                else Some (ExcedeCapacidad v (capacidad_max_m3 veh)))
      else Some VolumenNoPositivo)"

section \<open>JavaScript values and \<open>serializeBigInt\<close>\<close>

text \<open>
  The values that cross the transport layer: the JSON data model, \<open>undefined\<close> and
  \<open>bigint\<close>. An object is the list of its own properties in enumeration order. Objects
  with a \<open>toJSON\<close> method are not values of this type.
\<close>

datatype js_value =
    JUndefined
  | JNull
  | JBool bool
  | JNumber number
  | JString string
  | JBigInt int
  | JArray "js_value list"
  | JObject "(string \<times> js_value) list"

text \<open>A JSON text, as the tree of its grammar.\<close>

datatype json =
    TNull
  | TBool bool
  | TNumber rat
  | TString string
  | TArray "json list"
  | TObject "(string \<times> json) list"

datatype js_exception = TypeError | SyntaxError | RangeError | Thrown error

fun typeof :: "js_value \<Rightarrow> string" where
  "typeof JUndefined = ''undefined''"
| "typeof JNull = ''object''"
| "typeof (JBool b) = ''boolean''"
| "typeof (JNumber n) = ''number''"
| "typeof (JString s) = ''string''"
| "typeof (JBigInt i) = ''bigint''"
| "typeof (JArray xs) = ''object''"
| "typeof (JObject ms) = ''object''"

text \<open>Decimal digits of a natural number, and \<open>BigInt.prototype.toString()\<close>.\<close>

definition digit_char :: "nat \<Rightarrow> char" where
  "digit_char d = ''0123456789'' ! d"

fun digits_of_nat :: "nat \<Rightarrow> string" where
  "digits_of_nat n = (if n < 10 then [digit_char n]
                      else digits_of_nat (n div 10) @ [digit_char (n mod 10)])"

declare digits_of_nat.simps [simp del]

definition BigInt_toString :: "int \<Rightarrow> string" where
  "BigInt_toString i = (if i < 0 then CHR ''-'' # digits_of_nat (nat (- i)) else digits_of_nat (nat i))"

text \<open>The replacer function that \<open>serializeBigInt\<close> hands to \<open>JSON.stringify\<close>.\<close>

definition replacer :: "string \<Rightarrow> js_value \<Rightarrow> js_value" where
  "replacer key v =
     (if typeof v = ''bigint''
      then (case v of JBigInt i \<Rightarrow> JString (BigInt_toString i) | _ \<Rightarrow> v)
      else v)"

text \<open>
  \<open>JSON.stringify\<close> with that replacer: the replacer is applied to every value before the
  value is serialised; \<open>undefined\<close> is dropped from an object and printed as \<open>null\<close> in
  an array; a number that is not finite is printed as \<open>null\<close>; a \<open>bigint\<close> that is
  left after the replacer is a \<open>TypeError\<close>. The result \<open>None\<close> is \<open>undefined\<close>.
\<close>

function SerializeJSONProperty :: "string \<Rightarrow> js_value \<Rightarrow> js_exception + json option"
  and SerializeJSONArray :: "nat \<Rightarrow> js_value list \<Rightarrow> js_exception + json list"
  and SerializeJSONObject :: "(string \<times> js_value) list \<Rightarrow> js_exception + (string \<times> json) list"
where
  "SerializeJSONProperty key v =
     (case replacer key v of
        JUndefined \<Rightarrow> Inr None
      | JNull \<Rightarrow> Inr (Some TNull)
      | JBool b \<Rightarrow> Inr (Some (TBool b))
      | JNumber n \<Rightarrow> (case n of Number q \<Rightarrow> Inr (Some (TNumber q)) | _ \<Rightarrow> Inr (Some TNull))
      | JString s \<Rightarrow> Inr (Some (TString s))
      | JBigInt i \<Rightarrow> Inl TypeError
      | JArray xs \<Rightarrow>
          (case SerializeJSONArray 0 xs of Inl e \<Rightarrow> Inl e | Inr ts \<Rightarrow> Inr (Some (TArray ts)))
      | JObject ms \<Rightarrow>
          (case SerializeJSONObject ms of Inl e \<Rightarrow> Inl e | Inr ts \<Rightarrow> Inr (Some (TObject ts))))"
| "SerializeJSONArray index [] = Inr []"
| "SerializeJSONArray index (x # xs) =
     (case SerializeJSONProperty (digits_of_nat index) x of
        Inl e \<Rightarrow> Inl e
      | Inr strP \<Rightarrow>
          (case SerializeJSONArray (index + 1) xs of
             Inl e \<Rightarrow> Inl e
           | Inr ts \<Rightarrow> Inr ((case strP of None \<Rightarrow> TNull | Some t \<Rightarrow> t) # ts)))"
| "SerializeJSONObject [] = Inr []"
| "SerializeJSONObject ((k, x) # ms) =
     (case SerializeJSONProperty k x of
        Inl e \<Rightarrow> Inl e
      | Inr strP \<Rightarrow>
          (case SerializeJSONObject ms of
             Inl e \<Rightarrow> Inl e
           | Inr ts \<Rightarrow> Inr ((case strP of None \<Rightarrow> [] | Some t \<Rightarrow> [(k, t)]) @ ts)))"
  by pat_completeness auto
termination
  by (relation "measure (\<lambda>x. case x of
            Inl (key, v) \<Rightarrow> size v
          | Inr (Inl (index, xs)) \<Rightarrow> size_list size xs
          | Inr (Inr ms) \<Rightarrow> size_list (size_prod (\<lambda>k. 0) size) ms)")
     (auto simp add: replacer_def split: if_splits js_value.splits)

text \<open>\<open>CreateDataProperty\<close>: an existing key keeps its place and takes the new value.\<close>

fun CreateDataProperty :: "(string \<times> 'a) list \<Rightarrow> string \<Rightarrow> 'a \<Rightarrow> (string \<times> 'a) list" where
  "CreateDataProperty [] k v = [(k, v)]"
| "CreateDataProperty ((k', v') # ms) k v =
     (if k' = k then (k, v) # ms else (k', v') # CreateDataProperty ms k v)"

fun JSON_parse :: "json \<Rightarrow> js_value"
  and parse_elements :: "json list \<Rightarrow> js_value list"
  and parse_members :: "(string \<times> js_value) list \<Rightarrow> (string \<times> json) list \<Rightarrow> (string \<times> js_value) list"
where
  "JSON_parse TNull = JNull"
| "JSON_parse (TBool b) = JBool b"
| "JSON_parse (TNumber q) = JNumber (Number q)"
| "JSON_parse (TString s) = JString s"
| "JSON_parse (TArray ts) = JArray (parse_elements ts)"
| "JSON_parse (TObject ms) = JObject (parse_members [] ms)"
| "parse_elements [] = []"
| "parse_elements (t # ts) = JSON_parse t # parse_elements ts"
| "parse_members obj [] = obj"
| "parse_members obj ((k, t) # ms) = parse_members (CreateDataProperty obj k (JSON_parse t)) ms"


text \<open>
  \<open>serializeBigInt\<close>: \<open>JSON.parse(JSON.stringify(obj, replacer))\<close>. When
  \<open>JSON.stringify\<close> returns \<open>undefined\<close>, \<open>JSON.parse\<close> throws a \<open>SyntaxError\<close>.
\<close>

definition serializeBigInt :: "js_value \<Rightarrow> js_exception + js_value" where
  "serializeBigInt obj =
     (case SerializeJSONProperty [] obj of
        Inl e \<Rightarrow> Inl e
      | Inr None \<Rightarrow> Inl SyntaxError
      | Inr (Some text) \<Rightarrow> Inr (JSON_parse text))"

text \<open>
  What the function is expected to compute, in the words of its description: the same
  value with every \<open>bigint\<close>, at any depth, replaced by its base-10 string.
\<close>

fun bigints_as_strings :: "js_value \<Rightarrow> js_value"
  and bigints_as_strings_list :: "js_value list \<Rightarrow> js_value list"
  and bigints_as_strings_members :: "(string \<times> js_value) list \<Rightarrow> (string \<times> js_value) list"
where
  "bigints_as_strings (JBigInt i) = JString (BigInt_toString i)"
| "bigints_as_strings (JArray xs) = JArray (bigints_as_strings_list xs)"
| "bigints_as_strings (JObject ms) = JObject (bigints_as_strings_members ms)"
| "bigints_as_strings JUndefined = JUndefined"
| "bigints_as_strings JNull = JNull"
| "bigints_as_strings (JBool b) = JBool b"
| "bigints_as_strings (JNumber n) = JNumber n"
| "bigints_as_strings (JString s) = JString s"
| "bigints_as_strings_list [] = []"
| "bigints_as_strings_list (x # xs) = bigints_as_strings x # bigints_as_strings_list xs"
| "bigints_as_strings_members [] = []"
| "bigints_as_strings_members ((k, x) # ms) = (k, bigints_as_strings x) # bigints_as_strings_members ms"

text \<open>
  The JSON-serializable values, with \<open>bigint\<close> admitted: no \<open>undefined\<close>, no number
  that is not finite, and the keys of an object distinct.
\<close>

fun json_serializable :: "js_value \<Rightarrow> bool"
  and json_serializable_list :: "js_value list \<Rightarrow> bool"
  and json_serializable_members :: "(string \<times> js_value) list \<Rightarrow> bool"
where
  "json_serializable JUndefined = False"
| "json_serializable JNull = True"
| "json_serializable (JBool b) = True"
| "json_serializable (JNumber n) = (case n of Number q \<Rightarrow> True | _ \<Rightarrow> False)"
| "json_serializable (JString s) = True"
| "json_serializable (JBigInt i) = True"
| "json_serializable (JArray xs) = json_serializable_list xs"
| "json_serializable (JObject ms) = (distinct (map fst ms) \<and> json_serializable_members ms)"
| "json_serializable_list [] = True"
| "json_serializable_list (x # xs) = (json_serializable x \<and> json_serializable_list xs)"
| "json_serializable_members [] = True"
| "json_serializable_members ((k, x) # ms) = (json_serializable x \<and> json_serializable_members ms)"

section \<open>Conversions of the transport layer\<close>

text \<open>\<open>StringToBigInt\<close>, on ASCII text: \<open>None\<close> is the \<open>SyntaxError\<close> of \<open>BigInt(s)\<close>.\<close>

definition is_whitespace :: "char \<Rightarrow> bool" where
  "is_whitespace c = (c \<in> set [CHR 0x09, CHR 0x0A, CHR 0x0B, CHR 0x0C, CHR 0x0D, CHR 0x20])"

definition trim :: "string \<Rightarrow> string" where
  "trim str = rev (dropWhile is_whitespace (rev (dropWhile is_whitespace str)))"

definition digit_value :: "char \<Rightarrow> nat option" where
  "digit_value c =
     (let n = (of_char c :: nat) in
      if 48 \<le> n \<and> n \<le> 57 then Some (n - 48)
      else if 97 \<le> n \<and> n \<le> 102 then Some (n - 87)
      else if 65 \<le> n \<and> n \<le> 70 then Some (n - 55)
      else None)"

fun parse_digits :: "nat \<Rightarrow> nat \<Rightarrow> string \<Rightarrow> nat option" where
  "parse_digits base acc [] = Some acc"
| "parse_digits base acc (c # cs) =
     (case digit_value c of
        None \<Rightarrow> None
      | Some d \<Rightarrow> if d < base then parse_digits base (acc * base + d) cs else None)"

definition parse_integer :: "nat \<Rightarrow> string \<Rightarrow> nat option" where
  "parse_integer base str = (if str = [] then None else parse_digits base 0 str)"

definition StringToBigInt :: "string \<Rightarrow> int option" where
  "StringToBigInt str =
     (case trim str of
        [] \<Rightarrow> Some 0
      | c # cs \<Rightarrow>
          if c = CHR ''+'' then map_option int (parse_integer 10 cs)
          else if c = CHR ''-'' then map_option (\<lambda>n. - int n) (parse_integer 10 cs)
          else if c = CHR ''0'' \<and> cs \<noteq> [] \<and> hd cs \<in> set ''xX'' then map_option int (parse_integer 16 (tl cs))
          else if c = CHR ''0'' \<and> cs \<noteq> [] \<and> hd cs \<in> set ''oO'' then map_option int (parse_integer 8 (tl cs))
          else if c = CHR ''0'' \<and> cs \<noteq> [] \<and> hd cs \<in> set ''bB'' then map_option int (parse_integer 2 (tl cs))
          else map_option int (parse_integer 10 (c # cs)))"

text \<open>
  The parts of the JavaScript runtime and of the decimal library that work on binary
  floating point or on text the model does not look into:
  \<^item> \<open>rt_parseFloat\<close>: \<open>parseFloat\<close> of a string;
  \<^item> \<open>rt_ToString\<close>: the string an array or an object converts to;
  \<^item> \<open>rt_Date\<close>: \<open>new Date(v)\<close>;
  \<^item> \<open>rt_toNumber\<close>: \<open>Decimal.toNumber()\<close>;
  \<^item> \<open>rt_integer\<close>: the exact integer value of a number beyond \<open>2^53\<close>.
\<close>

record runtime =
  rt_parseFloat :: "string \<Rightarrow> number"
  rt_ToString :: "js_value \<Rightarrow> string"
  rt_Date :: "js_value \<Rightarrow> date"
  rt_toNumber :: "rat \<Rightarrow> number"
  rt_integer :: "rat \<Rightarrow> int"

fun truthy :: "js_value \<Rightarrow> bool" where
  "truthy JUndefined = False"
| "truthy JNull = False"
| "truthy (JBool b) = b"
| "truthy (JNumber n) = (n \<noteq> Number 0 \<and> n \<noteq> NaN)"
| "truthy (JString s) = (s \<noteq> [])"
| "truthy (JBigInt i) = (i \<noteq> 0)"
| "truthy (JArray xs) = True"
| "truthy (JObject ms) = True"

text \<open>The call \<open>BigInt(v)\<close>.\<close>

fun BigInt :: "runtime \<Rightarrow> js_value \<Rightarrow> js_exception + int" where
  "BigInt rt JUndefined = Inl TypeError"
| "BigInt rt JNull = Inl TypeError"
| "BigInt rt (JBool b) = Inr (if b then 1 else 0)"
| "BigInt rt (JNumber (Number q)) =
     (if of_int \<lfloor>q\<rfloor> \<noteq> q then Inl RangeError
      else if \<bar>q\<bar> \<le> 2 ^ 53 then Inr \<lfloor>q\<rfloor>
      else Inr (rt_integer rt q))"
| "BigInt rt (JNumber n) = Inl RangeError"
| "BigInt rt (JString s) = (case StringToBigInt s of None \<Rightarrow> Inl SyntaxError | Some i \<Rightarrow> Inr i)"
| "BigInt rt (JBigInt i) = Inr i"
| "BigInt rt v = (case StringToBigInt (rt_ToString rt v) of None \<Rightarrow> Inl SyntaxError | Some i \<Rightarrow> Inr i)"

text \<open>The call \<open>parseFloat(v)\<close>: the argument is converted to a string and read back.\<close>

fun parseFloat :: "runtime \<Rightarrow> js_value \<Rightarrow> number" where
  "parseFloat rt (JNumber n) = n"
| "parseFloat rt (JString s) = rt_parseFloat rt s"
| "parseFloat rt JUndefined = NaN"
| "parseFloat rt JNull = NaN"
| "parseFloat rt (JBool b) = NaN"
| "parseFloat rt (JBigInt i) = rt_parseFloat rt (BigInt_toString i)"
| "parseFloat rt v = rt_parseFloat rt (rt_ToString rt v)"

text \<open>Reading a property of the request body; a missing property is \<open>undefined\<close>.\<close>

fun get_property :: "js_value \<Rightarrow> string \<Rightarrow> js_value" where
  "get_property (JObject ms) k = (case map_of ms k of None \<Rightarrow> JUndefined | Some v \<Rightarrow> v)"
| "get_property v k = JUndefined"

section \<open>The handler of \<open>pages/api/servicios-recogida\<close>: POST and PUT\<close>

text \<open>
  A response: its status and its body. \<open>FaltanCampos\<close> is the message
  "Faltan campos obligatorios."; \<open>IdObligatorio\<close> is the message
  "ID del servicio de recogida es obligatorio para actualizar."; \<open>ErrorMessage e\<close> is
  the message of the error caught; \<open>Servicio s\<close> is the record created or updated,
  sent through \<open>serializeBigInt\<close>.
\<close>

datatype response_body =
    FaltanCampos
  | IdObligatorio
  | ErrorMessage js_exception
  | Servicio servicio_recogida

datatype response = Response nat response_body

text \<open>The expression \<open>v ? f(v) : undefined\<close>.\<close>

definition when_truthy :: "js_value \<Rightarrow> (js_value \<Rightarrow> js_exception + 'a) \<Rightarrow> js_exception + 'a option" where
  "when_truthy v f = (if truthy v then (case f v of Inl e \<Rightarrow> Inl e | Inr a \<Rightarrow> Inr (Some a)) else Inr None)"

definition handler_POST :: "runtime \<Rightarrow> js_value \<Rightarrow> prisma_client \<Rightarrow> response \<times> prisma_client" where
  "handler_POST rt body p =
     (if body = JUndefined \<or> body = JNull then (Response 500 (ErrorMessage TypeError), p)
      else
       (let clienteId = get_property body ''clienteId'';
            vehiculoId = get_property body ''vehiculoId'';
            trabajadorId = get_property body ''trabajadorId'';
            fecha = get_property body ''fecha'';
            volumen_recogido_m3 = get_property body ''volumen_recogido_m3''
        in
        if \<not> truthy clienteId \<or> \<not> truthy vehiculoId \<or> \<not> truthy trabajadorId
           \<or> \<not> truthy fecha \<or> volumen_recogido_m3 = JUndefined
        then (Response 400 FaltanCampos, p)
        else
         (case BigInt rt clienteId of
            Inl e \<Rightarrow> (Response 500 (ErrorMessage e), p)
          | Inr c \<Rightarrow>
           (case BigInt rt vehiculoId of
              Inl e \<Rightarrow> (Response 500 (ErrorMessage e), p)
            | Inr v \<Rightarrow>
             (case BigInt rt trabajadorId of
                Inl e \<Rightarrow> (Response 500 (ErrorMessage e), p)
              | Inr t \<Rightarrow>
               (case crearServicioRecogida
                       \<lparr>c_clienteId = c, c_vehiculoId = v, c_trabajadorId = t,
                        c_fecha = rt_Date rt fecha,
                        c_volumen_recogido_m3 = parseFloat rt volumen_recogido_m3\<rparr> p of
                  (Inl e, p') \<Rightarrow> (Response 500 (ErrorMessage (Thrown e)), p')
                | (Inr nuevoServicio, p') \<Rightarrow> (Response 201 (Servicio nuevoServicio), p')))))))"

text \<open>
  How an identifier field of the body reaches the workflow: as undefined when the field is
  falsy, as the converted value when it is truthy and converts.
\<close>

definition supplied_as :: "runtime \<Rightarrow> js_value \<Rightarrow> int option \<Rightarrow> bool" where
  "supplied_as rt x opt =
     (case opt of None \<Rightarrow> \<not> truthy x | Some j \<Rightarrow> truthy x \<and> BigInt rt x = Inr j)"

definition handler_PUT :: "runtime \<Rightarrow> js_value \<Rightarrow> prisma_client \<Rightarrow> response \<times> prisma_client" where
  "handler_PUT rt body p =
     (if body = JUndefined \<or> body = JNull then (Response 500 (ErrorMessage TypeError), p)
      else
       (let ident = get_property body ''id'';
            clienteId = get_property body ''clienteId'';
            vehiculoId = get_property body ''vehiculoId'';
            trabajadorId = get_property body ''trabajadorId'';
            fecha = get_property body ''fecha'';
            volumen_recogido_m3 = get_property body ''volumen_recogido_m3''
        in
        if \<not> truthy ident then (Response 400 IdObligatorio, p)
        else
         (case BigInt rt ident of
            Inl e \<Rightarrow> (Response 500 (ErrorMessage e), p)
          | Inr i \<Rightarrow>
           (case when_truthy clienteId (BigInt rt) of
              Inl e \<Rightarrow> (Response 500 (ErrorMessage e), p)
            | Inr c \<Rightarrow>
             (case when_truthy vehiculoId (BigInt rt) of
                Inl e \<Rightarrow> (Response 500 (ErrorMessage e), p)
              | Inr v \<Rightarrow>
               (case when_truthy trabajadorId (BigInt rt) of
                  Inl e \<Rightarrow> (Response 500 (ErrorMessage e), p)
                | Inr t \<Rightarrow>
                 (case actualizarServicioRecogida (rt_toNumber rt) i
                         \<lparr>u_clienteId = c, u_vehiculoId = v, u_trabajadorId = t,
                          u_fecha = (if truthy fecha then Some (rt_Date rt fecha) else None),
                          u_volumen_recogido_m3 =
                            (if volumen_recogido_m3 \<noteq> JUndefined
                             then Some (parseFloat rt volumen_recogido_m3) else None)\<rparr> p of
                    (Inl e, p') \<Rightarrow> (Response 500 (ErrorMessage (Thrown e)), p')
                  | (Inr updatedServicio, p') \<Rightarrow> (Response 200 (Servicio updatedServicio), p'))))))))"

section \<open>An example store\<close>

text \<open>
  The scenario of the specification: a vehicle of capacity 20, a client with rate 5.50 and
  a worker; a service record of volume 15 is on file under identifier 7. Beside them a
  smaller vehicle, clients with rates 2.005 and 100.01, and under identifier 5 a record
  whose volume has nineteen decimal places.
\<close>

definition ejemplo_store :: store where
  "ejemplo_store =
     \<lparr>clientes = [1 \<mapsto> \<lparr>cliente_nombre = ''Hotel Sol'', tipo = HOTEL, direccion = ''Calle 1'',
                          tarifa_por_m3 = 55 / 10\<rparr>,
                  2 \<mapsto> \<lparr>cliente_nombre = ''Clinica Luz'', tipo = SALUD, direccion = ''Calle 2'',
                          tarifa_por_m3 = 2005 / 1000\<rparr>,
                  3 \<mapsto> \<lparr>cliente_nombre = ''Casa Rio'', tipo = CASA, direccion = ''Calle 3'',
                          tarifa_por_m3 = 10001 / 100\<rparr>],
      vehiculos = [1 \<mapsto> \<lparr>matricula = ''ABC123'', capacidad_max_m3 = 20,
                           consumo_combustible_litros = 12\<rparr>,
                   2 \<mapsto> \<lparr>matricula = ''XYZ789'', capacidad_max_m3 = 10,
                           consumo_combustible_litros = 9\<rparr>],
      trabajadores = [1 \<mapsto> \<lparr>trabajador_nombre = ''Ana'', rol = ''conductor'', salario_base = 1000\<rparr>],
      servicios = [5 \<mapsto> \<lparr>servicio_id = 5, clienteId = 1, vehiculoId = 1, trabajadorId = 1,
                           fecha = 0, volumen_recogido_m3 = 1234567890123456789 / 10 ^ 19,
                           costo_servicio = 68 / 100\<rparr>,
                   7 \<mapsto> \<lparr>servicio_id = 7, clienteId = 1, vehiculoId = 1, trabajadorId = 1,
                           fecha = 0, volumen_recogido_m3 = 15, costo_servicio = 165 / 2\<rparr>],
      next_id = 8\<rparr>"

definition ejemplo :: prisma_client where
  "ejemplo = \<lparr>tables = ejemplo_store, calls = [], store_fails = False\<rparr>"

text \<open>
  A runtime for the examples. Its conversions of request values are the exact ones on the
  values the examples use: strings of decimal digits and dates given in milliseconds;
  \<open>toNumber\<close> is the conversion of the library.
\<close>

definition ejemplo_runtime :: runtime where
  "ejemplo_runtime =
     \<lparr>rt_parseFloat = (\<lambda>s. case parse_integer 10 s of None \<Rightarrow> NaN | Some n \<Rightarrow> Number (of_nat n)),
      rt_ToString = (\<lambda>v. ''[object Object]''),
      rt_Date = (\<lambda>v. case v of JNumber (Number q) \<Rightarrow>
                          if of_int \<lfloor>q\<rfloor> = q then Date \<lfloor>q\<rfloor> else InvalidDate
                      | _ \<Rightarrow> InvalidDate),
      rt_toNumber = Decimal_toNumber,
      rt_integer = (\<lambda>q. \<lfloor>q\<rfloor>)\<rparr>"


section \<open>Properties of the workflow\<close>

lemmas store_call_defs = vehiculo_findUnique_def cliente_findUnique_def trabajador_findUnique_def
  servicioRecogida_findUnique_def called_def servicioRecogida_create_def
  servicioRecogida_update_def servicioRecogida_delete_def

lemma Decimal_greaterThan_new: "Decimal_greaterThan (Decimal_new v) (Decimal c) = number_exceeds v c"
  by (cases v) simp_all

lemma floor_rat_numeral: "\<lfloor>numeral a / numeral b :: rat\<rfloor> = numeral a div numeral b"
  using floor_divide_of_int_eq [of "numeral a" "numeral b", where ?'a = rat] by simp

text \<open>
  The rounding gives a multiple of \<open>10^-dp\<close>, at distance at most half a unit of the last
  place from the exact value; a value half way between two multiples goes to the one of
  larger magnitude.
\<close>

lemma round_half_up_scaled: "\<exists>n::int. round_half_up dp q * 10 ^ dp = of_int n"
proof -
  have "round_half_up dp q * 10 ^ dp = sgn q * of_int \<lfloor>\<bar>q\<bar> * 10 ^ dp + 1 / 2\<rfloor>"
    by (simp add: round_half_up_def)
  also have "\<dots> = of_int ((if q < 0 then - 1 else if q = 0 then 0 else 1)
                          * \<lfloor>\<bar>q\<bar> * 10 ^ dp + 1 / 2\<rfloor>)"
    by (simp add: sgn_if)
  finally show ?thesis by blast
qed

lemma round_half_up_near:
  "\<bar>round_half_up dp q - q\<bar> * 10 ^ dp \<le> 1 / 2"
proof -
  let ?s = "\<bar>q\<bar> * 10 ^ dp"
  let ?n = "\<lfloor>?s + 1 / 2\<rfloor>"
  have lo: "of_int ?n \<le> ?s + 1 / 2" by (rule of_int_floor_le)
  have hi: "?s + 1 / 2 < of_int ?n + 1" by linarith
  have d: "\<bar>of_int ?n - ?s\<bar> \<le> 1 / 2" using lo hi by linarith
  have p: "(10::rat) ^ dp > 0" by simp
  have "\<bar>round_half_up dp q - q\<bar> * 10 ^ dp = \<bar>(round_half_up dp q - q) * 10 ^ dp\<bar>"
    using p by (simp add: abs_mult)
  also have "(round_half_up dp q - q) * 10 ^ dp = sgn q * (of_int ?n - ?s)"
    using p by (cases "q < 0") (auto simp add: round_half_up_def sgn_if field_simps)
  also have "\<bar>sgn q * (of_int ?n - ?s)\<bar> \<le> \<bar>of_int ?n - ?s\<bar>"
    by (auto simp add: abs_mult sgn_if)
  finally show ?thesis using d by linarith
qed

lemma round_half_up_tie:
  assumes "\<bar>q\<bar> * 10 ^ dp = of_int m + 1 / 2"
  shows "\<bar>round_half_up dp q\<bar> * 10 ^ dp = of_int m + 1"
proof -
  have "(0::rat) \<le> \<bar>q\<bar> * 10 ^ dp" by simp
  with assms have m: "0 \<le> m" by linarith
  from m have "(0::rat) < of_int m + 1 / 2" by simp
  with assms have "q \<noteq> 0" by auto
  then have s: "\<bar>sgn q\<bar> = 1" by (simp add: sgn_if)
  have "\<lfloor>\<bar>q\<bar> * 10 ^ dp + 1 / 2\<rfloor> = m + 1"
    by (simp add: assms)
  with m s show ?thesis
    by (simp add: round_half_up_def abs_mult)
qed

text \<open>
  \<open>ilog b x\<close> is the exponent of \<open>x\<close> in base \<open>b\<close>, and rounding to \<open>sd\<close>
  significant digits leaves a decimal of at most \<open>sd\<close> significant digits as it is.
\<close>

lemma int_power_power_int: "int_power b k = b powi k"
  by (simp add: int_power_def power_int_def power_inverse divide_inverse)

lemma digits_in_base_bounds:
  "0 < a \<Longrightarrow> 1 < b \<Longrightarrow>
     0 < digits_in_base b a \<and> b ^ nat (digits_in_base b a - 1) \<le> a
     \<and> a < b ^ nat (digits_in_base b a)"
proof (induction b a rule: digits_in_base.induct)
  case (1 b a)
  have b0: "0 < b" using 1(3) by simp
  show ?case
  proof (cases "a div b = 0")
    case True
    have "a = b * (a div b) + a mod b" by simp
    with True have "a = a mod b" by simp
    moreover have "a mod b < b" using b0 by simp
    ultimately have "a < b" by simp
    moreover from True have "digits_in_base b a = 1"
      using 1(2,3) by (simp add: digits_in_base.simps [of b a] digits_in_base.simps [of b 0])
    ultimately show ?thesis using 1(2) by simp
  next
    case False
    have "0 \<le> a div b" using 1(2) b0 by (simp add: pos_imp_zdiv_nonneg_iff)
    with False have p: "0 < a div b" by simp
    let ?d = "digits_in_base b (a div b)"
    from 1(1) [OF _ p 1(3)] 1(2,3)
    have ih: "0 < ?d" "b ^ nat (?d - 1) \<le> a div b" "a div b < b ^ nat ?d"
      by simp_all
    have d: "digits_in_base b a = 1 + ?d"
      using 1(2,3) by (simp add: digits_in_base.simps [of b a])
    have m: "a = b * (a div b) + a mod b" by simp
    have m0: "0 \<le> a mod b" "a mod b < b" using b0 by simp_all
    have "b * (a div b) \<le> a" using m m0 by linarith
    moreover have "b * b ^ nat (?d - 1) \<le> b * (a div b)" using ih(2) b0 by simp
    moreover have "b * b ^ nat (?d - 1) = b ^ Suc (nat (?d - 1))" by simp
    moreover have "Suc (nat (?d - 1)) = nat ?d" using ih(1) by simp
    ultimately have lo: "b ^ nat ?d \<le> a" by (metis order_trans)
    have "a < b * (a div b) + b" using m m0 by linarith
    moreover have "b * (a div b + 1) \<le> b * b ^ nat ?d" using ih(3) b0 by simp
    moreover have "b * b ^ nat ?d = b ^ nat (1 + ?d)"
      using ih(1) by (simp add: nat_add_distrib)
    ultimately have hi: "a < b ^ nat (1 + ?d)"
      by (simp add: distrib_left)
    from lo hi ih(1) d show ?thesis by simp
  qed
qed


lemma ilog_bounds:
  assumes "0 < x" and "1 < b"
  shows "int_power (of_int b) (ilog b x) \<le> x \<and> x < int_power (of_int b) (ilog b x + 1)"
proof (cases "1 \<le> x")
  case True
  then have f: "0 < \<lfloor>x\<rfloor>" by simp
  note d = digits_in_base_bounds [OF f assms(2)]
  let ?d = "digits_in_base b \<lfloor>x\<rfloor>"
  from d have "b ^ nat (?d - 1) \<le> \<lfloor>x\<rfloor>" by simp
  then have "of_int (b ^ nat (?d - 1)) \<le> (of_int \<lfloor>x\<rfloor> :: rat)"
    by (simp only: of_int_le_iff)
  also have "\<dots> \<le> x" by simp
  finally have lo: "(of_int b :: rat) ^ nat (?d - 1) \<le> x" by simp
  from d have "\<lfloor>x\<rfloor> + 1 \<le> b ^ nat ?d" by simp
  then have "(of_int (\<lfloor>x\<rfloor> + 1) :: rat) \<le> of_int (b ^ nat ?d)"
    by (simp only: of_int_le_iff)
  moreover have "x < of_int (\<lfloor>x\<rfloor> + 1)" by linarith
  ultimately have "x < of_int (b ^ nat ?d)" by (metis order_less_le_trans)
  then have hi: "x < (of_int b :: rat) ^ nat ?d" by simp
  from True d lo hi show ?thesis by (simp add: ilog_def int_power_def)
next
  case False
  with assms have x: "0 < x" "x < 1" by simp_all
  then have "1 < 1 / x" by simp
  then have c: "1 < \<lceil>1 / x\<rceil>" by linarith
  then have a: "0 < \<lceil>1 / x\<rceil> - 1" by simp
  note d = digits_in_base_bounds [OF a assms(2)]
  let ?d = "digits_in_base b (\<lceil>1 / x\<rceil> - 1)"
  have bp: "(0::rat) < of_int b" using assms(2) by simp
  from d have "\<lceil>1 / x\<rceil> \<le> b ^ nat ?d" by simp
  then have "(of_int \<lceil>1 / x\<rceil> :: rat) \<le> of_int (b ^ nat ?d)"
    by (simp only: of_int_le_iff)
  moreover have "1 / x \<le> of_int \<lceil>1 / x\<rceil>" by (rule le_of_int_ceiling)
  ultimately have "1 / x \<le> of_int (b ^ nat ?d)" by (metis order_trans)
  then have "1 / x \<le> (of_int b :: rat) ^ nat ?d" by simp
  with x bp have lo: "1 / (of_int b :: rat) ^ nat ?d \<le> x"
    by (simp add: field_simps)
  from d have "(of_int (b ^ nat (?d - 1)) :: rat) \<le> of_int (\<lceil>1 / x\<rceil> - 1)"
    by (simp only: of_int_le_iff)
  moreover have "(of_int (\<lceil>1 / x\<rceil> - 1) :: rat) < 1 / x" by linarith
  ultimately have "(of_int (b ^ nat (?d - 1)) :: rat) < 1 / x" by (metis order_le_less_trans)
  then have "(of_int b :: rat) ^ nat (?d - 1) < 1 / x" by simp
  with x bp have hi': "x < 1 / (of_int b :: rat) ^ nat (?d - 1)"
    by (simp add: field_simps)
  have hi: "x < int_power (of_int b) (- ?d + 1)"
  proof (cases "?d = 1")
    case True
    with x show ?thesis by (simp add: int_power_def)
  next
    case False
    with d have "1 < ?d" by simp
    then have "nat (- (- ?d + 1)) = nat (?d - 1)" "\<not> 0 \<le> - ?d + 1" by simp_all
    with hi' show ?thesis by (simp add: int_power_def)
  qed
  from False d lo hi show ?thesis by (simp add: ilog_def int_power_def)
qed

lemma ilog_lower:
  assumes "0 < x"
  shows "int_power 10 (ilog 10 x) \<le> x"
  using ilog_bounds [OF assms, of 10] by simp

lemma round_significant_exact:
  assumes q: "q = of_int m * int_power 10 j" and m: "\<bar>m\<bar> < 10 ^ sd"
  shows "round_significant sd q = q"
proof (cases "q = 0")
  case True
  then show ?thesis by (simp add: round_significant_def)
next
  case False
  define u where "u = ilog 10 \<bar>q\<bar> + 1 - int sd"
  define w :: rat where "w = 10 powi u"
  define n :: int where "n = \<bar>m\<bar> * 10 ^ nat (j - u)"
  from False have qp: "0 < \<bar>q\<bar>" by simp
  have w0: "0 < w" by (simp add: w_def)
  have aq: "\<bar>q\<bar> = of_int \<bar>m\<bar> * (10::rat) powi j"
    by (simp add: q abs_mult int_power_power_int)
  from m have "(of_int \<bar>m\<bar> :: rat) < of_int (10 ^ sd)" by (simp only: of_int_less_iff)
  then have "(of_int \<bar>m\<bar> :: rat) < 10 powi (int sd)" by simp
  then have "of_int \<bar>m\<bar> * (10::rat) powi j < 10 powi (int sd) * 10 powi j"
    by (simp add: mult_strict_right_mono)
  also have "\<dots> = 10 powi (int sd + j)" by (simp add: power_int_add)
  finally have "\<bar>q\<bar> < 10 powi (int sd + j)" by (simp only: aq)
  with ilog_lower [OF qp] have "(10::rat) powi (ilog 10 \<bar>q\<bar>) < 10 powi (int sd + j)"
    by (simp only: int_power_power_int)
  then have "ilog 10 \<bar>q\<bar> < int sd + j"
    using power_int_increasing [of "int sd + j" "ilog 10 \<bar>q\<bar>" "10::rat"]
    by (cases "ilog 10 \<bar>q\<bar> < int sd + j") simp_all
  then have k: "0 \<le> j - u" by (simp add: u_def)
  have "(10::rat) powi j = 10 powi ((j - u) + u)" by simp
  also have "\<dots> = 10 powi (j - u) * 10 powi u" by (rule power_int_add) simp
  also have "(10::rat) powi (j - u) = 10 ^ nat (j - u)"
    using k by (simp add: power_int_def)
  finally have pj: "(10::rat) powi j = 10 ^ nat (j - u) * w" by (simp only: w_def)
  have qn: "\<bar>q\<bar> = of_int n * w"
    by (simp add: aq pj n_def)
  with w0 have "\<bar>q\<bar> / w = of_int n" by simp
  then have "\<lfloor>\<bar>q\<bar> / w + 1 / 2\<rfloor> = n" by (simp only: floor_add_int) linarith
  then have "round_significant sd q = sgn q * of_int n * w"
    using False by (simp add: round_significant_def Let_def int_power_power_int u_def w_def)
  also have "\<dots> = sgn q * \<bar>q\<bar>" by (simp add: qn)
  finally show ?thesis by (simp add: sgn_mult_abs)
qed

text \<open>When all validations pass only the write can fail; otherwise the chain decides.\<close>

lemma workflow_checks_kind:
  "workflow_checks st v vid cid tid = Some e \<Longrightarrow> kind e \<noteq> PersistenceError"
  by (auto simp add: workflow_checks_def split: if_splits option.splits)

lemma crear_outcome:
  "case workflow_checks (tables p) (c_volumen_recogido_m3 data) (c_vehiculoId data)
          (c_clienteId data) (c_trabajadorId data) of
     Some e \<Rightarrow> fst (crearServicioRecogida data p) = Inl e
   | None \<Rightarrow> fst (crearServicioRecogida data p) = Inl NoSePudoCrear
             \<or> (\<exists>s. fst (crearServicioRecogida data p) = Inr s)"
  by (auto simp add: workflow_checks_def crearServicioRecogida_def store_call_defs Let_def
        Decimal_greaterThan_new split: option.split prod.split)

lemma actualizar_outcome:
  assumes "servicios (tables p) i = Some old"
  shows "case workflow_checks (tables p)
          (nullish (u_volumen_recogido_m3 upd) (toNumber (volumen_recogido_m3 old)))
          (nullish (u_vehiculoId upd) (vehiculoId old))
          (nullish (u_clienteId upd) (clienteId old))
          (nullish (u_trabajadorId upd) (trabajadorId old)) of
     Some e \<Rightarrow> fst (actualizarServicioRecogida toNumber i upd p) = Inl e
   | None \<Rightarrow> fst (actualizarServicioRecogida toNumber i upd p) = Inl NoSePudoActualizar
             \<or> (\<exists>s. fst (actualizarServicioRecogida toNumber i upd p) = Inr s)"
  using assms
  by (auto simp add: workflow_checks_def actualizarServicioRecogida_def store_call_defs Let_def
        Decimal_greaterThan_new split: option.split prod.split)


lemma crear_checks_in_order:
  "(number_le_zero (c_volumen_recogido_m3 data) \<longrightarrow>
      crearServicioRecogida data p = (Inl VolumenNoPositivo, p))
   \<and> (\<not> number_le_zero (c_volumen_recogido_m3 data)
       \<and> vehiculos (tables p) (c_vehiculoId data) = None \<longrightarrow>
      crearServicioRecogida data p =
        (Inl (NoEncontrado VehiculoModel (c_vehiculoId data)),
         p\<lparr>calls := calls p @ [FindUnique VehiculoModel (c_vehiculoId data)]\<rparr>))
   \<and> (\<not> number_le_zero (c_volumen_recogido_m3 data)
       \<and> vehiculos (tables p) (c_vehiculoId data) = Some veh
       \<and> number_exceeds (c_volumen_recogido_m3 data) (capacidad_max_m3 veh) \<longrightarrow>
      crearServicioRecogida data p =
        (Inl (ExcedeCapacidad (c_volumen_recogido_m3 data) (capacidad_max_m3 veh)),
         p\<lparr>calls := calls p @ [FindUnique VehiculoModel (c_vehiculoId data)]\<rparr>))
   \<and> (\<not> number_le_zero (c_volumen_recogido_m3 data)
       \<and> vehiculos (tables p) (c_vehiculoId data) = Some veh
       \<and> \<not> number_exceeds (c_volumen_recogido_m3 data) (capacidad_max_m3 veh)
       \<and> clientes (tables p) (c_clienteId data) = None \<longrightarrow>
      crearServicioRecogida data p =
        (Inl (NoEncontrado ClienteModel (c_clienteId data)),
         p\<lparr>calls := calls p @ [FindUnique VehiculoModel (c_vehiculoId data),
                                 FindUnique ClienteModel (c_clienteId data)]\<rparr>))
   \<and> (\<not> number_le_zero (c_volumen_recogido_m3 data)
       \<and> vehiculos (tables p) (c_vehiculoId data) = Some veh
       \<and> \<not> number_exceeds (c_volumen_recogido_m3 data) (capacidad_max_m3 veh)
       \<and> clientes (tables p) (c_clienteId data) = Some cli
       \<and> trabajadores (tables p) (c_trabajadorId data) = None \<longrightarrow>
      crearServicioRecogida data p =
        (Inl (NoEncontrado TrabajadorModel (c_trabajadorId data)),
         p\<lparr>calls := calls p @ [FindUnique VehiculoModel (c_vehiculoId data),
                                 FindUnique ClienteModel (c_clienteId data),
                                 FindUnique TrabajadorModel (c_trabajadorId data)]\<rparr>))"
  by (simp add: crearServicioRecogida_def store_call_defs Let_def Decimal_greaterThan_new)

text \<open>
  The comparisons of the source agree with the words of the specification on every volume
  but \<open>NaN\<close>, which the source lets through both the volume check and the capacity check.
\<close>

lemma workflow_checks_spec_validation_chain:
  "v \<noteq> NaN \<Longrightarrow> workflow_checks st v vid cid tid = spec_validation_chain st v vid cid tid"
  by (cases v) (auto simp add: workflow_checks_def spec_validation_chain_def split: option.split)

lemma workflow_checks_NaN:
  "spec_validation_chain st NaN vid cid tid = Some VolumenNoPositivo
   \<and> workflow_checks st NaN vid cid tid \<noteq> Some VolumenNoPositivo
   \<and> workflow_checks st NaN vid cid tid \<noteq> Some (ExcedeCapacidad NaN c)"
  by (auto simp add: workflow_checks_def spec_validation_chain_def split: option.split)

lemma crear_follows_spec_validation_chain:
  assumes "c_volumen_recogido_m3 data \<noteq> NaN"
  shows "case spec_validation_chain (tables p) (c_volumen_recogido_m3 data) (c_vehiculoId data)
          (c_clienteId data) (c_trabajadorId data) of
     Some e \<Rightarrow> fst (crearServicioRecogida data p) = Inl e
   | None \<Rightarrow> fst (crearServicioRecogida data p) = Inl NoSePudoCrear
             \<or> (\<exists>s. fst (crearServicioRecogida data p) = Inr s)"
  using crear_outcome [where p = p and data = data] workflow_checks_spec_validation_chain [OF assms]
  by simp

lemma actualizar_follows_spec_validation_chain:
  assumes "servicios (tables p) i = Some old"
    and "nullish (u_volumen_recogido_m3 upd) (toNumber (volumen_recogido_m3 old)) \<noteq> NaN"
  shows "case spec_validation_chain (tables p)
          (nullish (u_volumen_recogido_m3 upd) (toNumber (volumen_recogido_m3 old)))
          (nullish (u_vehiculoId upd) (vehiculoId old))
          (nullish (u_clienteId upd) (clienteId old))
          (nullish (u_trabajadorId upd) (trabajadorId old)) of
     Some e \<Rightarrow> fst (actualizarServicioRecogida toNumber i upd p) = Inl e
   | None \<Rightarrow> fst (actualizarServicioRecogida toNumber i upd p) = Inl NoSePudoActualizar
             \<or> (\<exists>s. fst (actualizarServicioRecogida toNumber i upd p) = Inr s)"
  using actualizar_outcome [OF assms(1), where upd = upd and toNumber = toNumber]
    workflow_checks_spec_validation_chain [OF assms(2)]
  by simp

lemma actualizar_checks_in_order:
  assumes "servicios (tables p) i = Some old"
    and "fv = nullish (u_volumen_recogido_m3 upd) (toNumber (volumen_recogido_m3 old))"
    and "vid = nullish (u_vehiculoId upd) (vehiculoId old)"
    and "cid = nullish (u_clienteId upd) (clienteId old)"
    and "tid = nullish (u_trabajadorId upd) (trabajadorId old)"
  shows
   "(number_le_zero fv \<longrightarrow>
      actualizarServicioRecogida toNumber i upd p =
        (Inl VolumenNoPositivo, p\<lparr>calls := calls p @ [FindUnique ServicioRecogidaModel i]\<rparr>))
   \<and> (\<not> number_le_zero fv \<and> vehiculos (tables p) vid = None \<longrightarrow>
      actualizarServicioRecogida toNumber i upd p =
        (Inl (NoEncontrado VehiculoModel vid),
         p\<lparr>calls := calls p @ [FindUnique ServicioRecogidaModel i, FindUnique VehiculoModel vid]\<rparr>))
   \<and> (\<not> number_le_zero fv \<and> vehiculos (tables p) vid = Some veh
       \<and> number_exceeds fv (capacidad_max_m3 veh) \<longrightarrow>
      actualizarServicioRecogida toNumber i upd p =
        (Inl (ExcedeCapacidad fv (capacidad_max_m3 veh)),
         p\<lparr>calls := calls p @ [FindUnique ServicioRecogidaModel i, FindUnique VehiculoModel vid]\<rparr>))
   \<and> (\<not> number_le_zero fv \<and> vehiculos (tables p) vid = Some veh
       \<and> \<not> number_exceeds fv (capacidad_max_m3 veh)
       \<and> clientes (tables p) cid = None \<longrightarrow>
      actualizarServicioRecogida toNumber i upd p =
        (Inl (NoEncontrado ClienteModel cid),
         p\<lparr>calls := calls p @ [FindUnique ServicioRecogidaModel i, FindUnique VehiculoModel vid,
                                 FindUnique ClienteModel cid]\<rparr>))
   \<and> (\<not> number_le_zero fv \<and> vehiculos (tables p) vid = Some veh
       \<and> \<not> number_exceeds fv (capacidad_max_m3 veh)
       \<and> clientes (tables p) cid = Some cli
       \<and> trabajadores (tables p) tid = None \<longrightarrow>
      actualizarServicioRecogida toNumber i upd p =
        (Inl (NoEncontrado TrabajadorModel tid),
         p\<lparr>calls := calls p @ [FindUnique ServicioRecogidaModel i, FindUnique VehiculoModel vid,
                                 FindUnique ClienteModel cid, FindUnique TrabajadorModel tid]\<rparr>))"
  using assms
  by (simp add: actualizarServicioRecogida_def store_call_defs Let_def Decimal_greaterThan_new)

lemma actualizar_same_chain:
  assumes old: "servicios (tables p) i = Some old"
    and k: "kind e \<noteq> PersistenceError"
  shows "fst (actualizarServicioRecogida toNumber i upd p) = Inl e \<longleftrightarrow>
         fst (crearServicioRecogida
               \<lparr>c_clienteId = nullish (u_clienteId upd) (clienteId old),
                c_vehiculoId = nullish (u_vehiculoId upd) (vehiculoId old),
                c_trabajadorId = nullish (u_trabajadorId upd) (trabajadorId old),
                c_fecha = f,
                c_volumen_recogido_m3 =
                  nullish (u_volumen_recogido_m3 upd) (toNumber (volumen_recogido_m3 old))\<rparr> p) = Inl e"
proof -
  let ?d = "\<lparr>c_clienteId = nullish (u_clienteId upd) (clienteId old),
                c_vehiculoId = nullish (u_vehiculoId upd) (vehiculoId old),
                c_trabajadorId = nullish (u_trabajadorId upd) (trabajadorId old),
                c_fecha = f,
                c_volumen_recogido_m3 =
                  nullish (u_volumen_recogido_m3 upd) (toNumber (volumen_recogido_m3 old))\<rparr>"
  let ?chain = "workflow_checks (tables p)
          (nullish (u_volumen_recogido_m3 upd) (toNumber (volumen_recogido_m3 old)))
          (nullish (u_vehiculoId upd) (vehiculoId old))
          (nullish (u_clienteId upd) (clienteId old))
          (nullish (u_trabajadorId upd) (trabajadorId old))"
  show ?thesis
  proof (cases ?chain)
    case None
    with actualizar_outcome [OF old, where upd = upd and toNumber = toNumber]
      crear_outcome [where p = p and data = ?d] k
    show ?thesis by auto
  next
    case (Some e')
    with actualizar_outcome [OF old, where upd = upd and toNumber = toNumber]
      crear_outcome [where p = p and data = ?d]
    show ?thesis by auto
  qed
qed

lemmas ejemplo_defs = ejemplo_def ejemplo_store_def

subsection \<open>Cost derivation\<close>

text \<open>
  What the two operations compute. When the effective volume \<open>v\<close> is positive, the
  referenced vehicle exists with capacity at least \<open>v\<close>, and the referenced client and
  worker exist, a create or an update that returns a record has persisted it with
  \<open>costo_servicio\<close> equal to the product of \<open>v\<close> and the client's \<open>tarifa_por_m3\<close> as
  \<open>times\<close> returns it, that is rounded to 20 significant digits, rounded again half up to
  two decimal places; the request carries no cost. The only failure left is that of the
  write itself.
\<close>

lemma costo_servicio_as_computed:
  assumes "0 < v"
    and "vehiculos (tables p) vid = Some veh" and "v \<le> capacidad_max_m3 veh"
    and "clientes (tables p) cid = Some cli"
    and "trabajadores (tables p) tid = Some tra"
  shows
   "(c_volumen_recogido_m3 data = Number v \<and> c_vehiculoId data = vid \<and> c_clienteId data = cid
       \<and> c_trabajadorId data = tid \<longrightarrow>
      (case crearServicioRecogida data p of
         (Inr s, p') \<Rightarrow>
            costo_servicio s =
              round_half_up 2 (round_significant Decimal_precision (v * tarifa_por_m3 cli))
          \<and> volumen_recogido_m3 s = v \<and> clienteId s = cid
          \<and> servicios (tables p') (servicio_id s) = Some s
       | (Inl e, p') \<Rightarrow>
            e = NoSePudoCrear \<and> (store_fails p \<or> c_fecha data = InvalidDate)))
    \<and>
    (servicios (tables p) i = Some old
       \<and> nullish (u_volumen_recogido_m3 upd) (toNumber (volumen_recogido_m3 old)) = Number v
       \<and> nullish (u_vehiculoId upd) (vehiculoId old) = vid
       \<and> nullish (u_clienteId upd) (clienteId old) = cid
       \<and> nullish (u_trabajadorId upd) (trabajadorId old) = tid \<longrightarrow>
      (case actualizarServicioRecogida toNumber i upd p of
         (Inr s, p') \<Rightarrow>
            costo_servicio s =
              round_half_up 2 (round_significant Decimal_precision (v * tarifa_por_m3 cli))
          \<and> volumen_recogido_m3 s = v \<and> clienteId s = cid
          \<and> servicio_id s = i \<and> servicios (tables p') i = Some s
       | (Inl e, p') \<Rightarrow>
            e = NoSePudoActualizar \<and> (store_fails p \<or> u_fecha upd = Some InvalidDate)))"
  using assms
  by (auto simp add: crearServicioRecogida_def actualizarServicioRecogida_def store_call_defs Let_def
      split: date.split option.split)

text \<open>
  So the cost is the exact product rounded half up to two decimal places whenever the
  product has at most 20 significant digits.
\<close>

lemma costo_servicio_exact_within_precision:
  assumes "0 < v"
    and "vehiculos (tables p) vid = Some veh" and "v \<le> capacidad_max_m3 veh"
    and "clientes (tables p) cid = Some cli"
    and "trabajadores (tables p) tid = Some tra"
    and "v * tarifa_por_m3 cli = of_int m * int_power 10 j"
    and "\<bar>m\<bar> < 10 ^ Decimal_precision"
  shows
   "(c_volumen_recogido_m3 data = Number v \<and> c_vehiculoId data = vid \<and> c_clienteId data = cid
       \<and> c_trabajadorId data = tid \<longrightarrow>
      (case crearServicioRecogida data p of
         (Inr s, p') \<Rightarrow> costo_servicio s = round_half_up 2 (v * tarifa_por_m3 cli)
       | (Inl e, p') \<Rightarrow> e = NoSePudoCrear))
    \<and>
    (servicios (tables p) i = Some old
       \<and> nullish (u_volumen_recogido_m3 upd) (toNumber (volumen_recogido_m3 old)) = Number v
       \<and> nullish (u_vehiculoId upd) (vehiculoId old) = vid
       \<and> nullish (u_clienteId upd) (clienteId old) = cid
       \<and> nullish (u_trabajadorId upd) (trabajadorId old) = tid \<longrightarrow>
      (case actualizarServicioRecogida toNumber i upd p of
         (Inr s, p') \<Rightarrow> costo_servicio s = round_half_up 2 (v * tarifa_por_m3 cli)
       | (Inl e, p') \<Rightarrow> e = NoSePudoActualizar))"
proof -
  note t = costo_servicio_as_computed [OF assms(1-5), where data = data and i = i and old = old
             and upd = upd and toNumber = toNumber]
  note r = round_significant_exact [OF assms(6,7)]
  obtain rc pc where c: "crearServicioRecogida data p = (rc, pc)" by (cases "crearServicioRecogida data p")
  obtain ru pu where u: "actualizarServicioRecogida toNumber i upd p = (ru, pu)"
    by (cases "actualizarServicioRecogida toNumber i upd p")
  from t [THEN conjunct1] c r
  have a: "c_volumen_recogido_m3 data = Number v \<and> c_vehiculoId data = vid \<and> c_clienteId data = cid
       \<and> c_trabajadorId data = tid \<longrightarrow>
      (case crearServicioRecogida data p of
         (Inr s, p') \<Rightarrow> costo_servicio s = round_half_up 2 (v * tarifa_por_m3 cli)
       | (Inl e, p') \<Rightarrow> e = NoSePudoCrear)"
    by (cases rc) simp_all
  from t [THEN conjunct2] u r
  have b: "servicios (tables p) i = Some old
       \<and> nullish (u_volumen_recogido_m3 upd) (toNumber (volumen_recogido_m3 old)) = Number v
       \<and> nullish (u_vehiculoId upd) (vehiculoId old) = vid
       \<and> nullish (u_clienteId upd) (clienteId old) = cid
       \<and> nullish (u_trabajadorId upd) (trabajadorId old) = tid \<longrightarrow>
      (case actualizarServicioRecogida toNumber i upd p of
         (Inr s, p') \<Rightarrow> costo_servicio s = round_half_up 2 (v * tarifa_por_m3 cli)
       | (Inl e, p') \<Rightarrow> e = NoSePudoActualizar)"
    by (cases ru) simp_all
  from a b show ?thesis by (rule conjI)
qed

text \<open>
  The volume 1.5001999800019998 is the decimal printed for a number: reading it as a number
  and printing that number gives it back.
\<close>

lemma volumen_of_example_is_a_number:
  "Decimal_toNumber (15001999800019998 / 10 ^ 16) = Number (15001999800019998 / 10 ^ 16)"
  by code_simp

text \<open>
  Claim C1 fails on the code. For the volume 1.5001999800019998, within the capacity 20,
  and the client with rate 100.01, all validations pass and the product is
  150.034999999999999998, which rounds half up to 150.03 at two decimal places. The cost
  that create and update persist is 150.04: \<open>times\<close> has rounded the product of 21
  significant digits to 150.035 before \<open>toDecimalPlaces\<close> rounds it.
\<close>

theorem costo_servicio_rounded_twice:
  "fst (crearServicioRecogida
          \<lparr>c_clienteId = 3, c_vehiculoId = 1, c_trabajadorId = 1, c_fecha = Date 0,
           c_volumen_recogido_m3 = Number (15001999800019998 / 10 ^ 16)\<rparr> ejemplo)
     = Inr \<lparr>servicio_id = 8, clienteId = 3, vehiculoId = 1, trabajadorId = 1, fecha = 0,
            volumen_recogido_m3 = 15001999800019998 / 10 ^ 16, costo_servicio = 15004 / 100\<rparr>
   \<and> fst (actualizarServicioRecogida Decimal_toNumber 7
          \<lparr>u_clienteId = Some 3, u_vehiculoId = None, u_trabajadorId = None, u_fecha = None,
           u_volumen_recogido_m3 = Some (Number (15001999800019998 / 10 ^ 16))\<rparr> ejemplo)
     = Inr \<lparr>servicio_id = 7, clienteId = 3, vehiculoId = 1, trabajadorId = 1, fecha = 0,
            volumen_recogido_m3 = 15001999800019998 / 10 ^ 16, costo_servicio = 15004 / 100\<rparr>
   \<and> (15001999800019998 / 10 ^ 16) * (10001 / 100) = (150034999999999999998 / 10 ^ 18 :: rat)
   \<and> round_half_up 2 ((15001999800019998 / 10 ^ 16) * (10001 / 100)) = 15003 / 100
   \<and> round_significant Decimal_precision ((15001999800019998 / 10 ^ 16) * (10001 / 100))
       = 150035 / 1000"
  by code_simp

subsection \<open>Order of the checks on create\<close>

text \<open>
  Claim C2. The checks of \<open>crearServicioRecogida\<close> run in the order volume, vehicle,
  capacity, client, worker (lemma \<open>crear_checks_in_order\<close>), but the first one is the
  comparison \<open>volumen_recogido_m3 <= 0\<close>, which is false for \<open>NaN\<close>: a volume that is
  not a number is not strictly positive and yet passes the first check. With a missing
  vehicle the error is the one of the vehicle lookup; with every entity on file the three
  lookups are made and the write is attempted, and the error is not that of the volume
  check.
\<close>

theorem crear_NaN_volume_passes_first_check:
  "crearServicioRecogida
     \<lparr>c_clienteId = 1, c_vehiculoId = 99, c_trabajadorId = 1, c_fecha = Date 0,
      c_volumen_recogido_m3 = NaN\<rparr> ejemplo
   = (Inl (NoEncontrado VehiculoModel 99), ejemplo\<lparr>calls := [FindUnique VehiculoModel 99]\<rparr>)
   \<and> kind (NoEncontrado VehiculoModel 99) = NotFoundError
   \<and> fst (crearServicioRecogida
     \<lparr>c_clienteId = 1, c_vehiculoId = 1, c_trabajadorId = 1, c_fecha = Date 0,
      c_volumen_recogido_m3 = NaN\<rparr> ejemplo) \<noteq> Inl VolumenNoPositivo
   \<and> calls (snd (crearServicioRecogida
     \<lparr>c_clienteId = 1, c_vehiculoId = 1, c_trabajadorId = 1, c_fecha = Date 0,
      c_volumen_recogido_m3 = NaN\<rparr> ejemplo))
     = [FindUnique VehiculoModel 1, FindUnique ClienteModel 1, FindUnique TrabajadorModel 1,
        Create ServicioRecogidaModel]"
  by (simp add: crearServicioRecogida_def store_call_defs ejemplo_defs Let_def)

text \<open>
  The same through the POST handler: a body whose volume is \<open>null\<close> is not answered
  with the volume error but with the error of the vehicle lookup.
\<close>

lemma handler_POST_NaN_volume:
  "parseFloat ejemplo_runtime JNull = NaN
   \<and> handler_POST ejemplo_runtime
       (JObject [(''clienteId'', JNumber (Number 1)), (''vehiculoId'', JNumber (Number 99)),
                 (''trabajadorId'', JNumber (Number 1)), (''fecha'', JNumber (Number 1700000000000)),
                 (''volumen_recogido_m3'', JNull)]) ejemplo
     = (Response 500 (ErrorMessage (Thrown (NoEncontrado VehiculoModel 99))),
        ejemplo\<lparr>calls := [FindUnique VehiculoModel 99]\<rparr>)"
  by (simp add: crearServicioRecogida_def handler_POST_def store_call_defs ejemplo_defs
        ejemplo_runtime_def Let_def)

subsection \<open>No partial writes\<close>

text \<open>
  Claim C3. In a create or an update the store is written at most once and the write is
  the last call made. Whenever the operation fails the tables are unchanged, and the
  failure is of kind \<open>PersistenceError\<close> exactly when the write call was made: every
  validation failure is raised before any write, and a failed write is reported as a
  persistence failure.
\<close>

theorem validation_precedes_persistence:
  "(case crearServicioRecogida data p of (r, p') \<Rightarrow>
      calls p' = calls p @ new_calls p p'
      \<and> length (filter is_write (new_calls p p')) \<le> 1
      \<and> filter is_write (butlast (new_calls p p')) = []
      \<and> (\<forall>e. r = Inl e \<longrightarrow> tables p' = tables p
             \<and> (kind e = PersistenceError \<longleftrightarrow> filter is_write (new_calls p p') \<noteq> [])))
   \<and> (case actualizarServicioRecogida toNumber i upd p of (r, p') \<Rightarrow>
      calls p' = calls p @ new_calls p p'
      \<and> length (filter is_write (new_calls p p')) \<le> 1
      \<and> filter is_write (butlast (new_calls p p')) = []
      \<and> (\<forall>e. r = Inl e \<longrightarrow> tables p' = tables p
             \<and> (kind e = PersistenceError \<longleftrightarrow> filter is_write (new_calls p p') \<noteq> [])))"
proof (rule conjI)
  show "case crearServicioRecogida data p of (r, p') \<Rightarrow>
      calls p' = calls p @ new_calls p p'
      \<and> length (filter is_write (new_calls p p')) \<le> 1
      \<and> filter is_write (butlast (new_calls p p')) = []
      \<and> (\<forall>e. r = Inl e \<longrightarrow> tables p' = tables p
             \<and> (kind e = PersistenceError \<longleftrightarrow> filter is_write (new_calls p p') \<noteq> []))"
    by (auto simp add: crearServicioRecogida_def store_call_defs new_calls_def Let_def
        split: date.split option.split decimal.split)
  show "case actualizarServicioRecogida toNumber i upd p of (r, p') \<Rightarrow>
      calls p' = calls p @ new_calls p p'
      \<and> length (filter is_write (new_calls p p')) \<le> 1
      \<and> filter is_write (butlast (new_calls p p')) = []
      \<and> (\<forall>e. r = Inl e \<longrightarrow> tables p' = tables p
             \<and> (kind e = PersistenceError \<longleftrightarrow> filter is_write (new_calls p p') \<noteq> []))"
    by (auto simp add: actualizarServicioRecogida_def store_call_defs new_calls_def Let_def
        split: date.split option.split decimal.split)
qed

text \<open>
  In the example store: a create of volume 25 on the vehicle of capacity 20 fails on the
  capacity check after one lookup, and an update of record 7 to volume 0 fails on the
  volume check after the lookup of the record; neither writes.
\<close>

theorem validation_precedes_persistence_witness:
  "crearServicioRecogida
     \<lparr>c_clienteId = 1, c_vehiculoId = 1, c_trabajadorId = 1, c_fecha = Date 0,
      c_volumen_recogido_m3 = Number 25\<rparr> ejemplo
     = (Inl (ExcedeCapacidad (Number 25) 20), ejemplo\<lparr>calls := [FindUnique VehiculoModel 1]\<rparr>)
   \<and> tables (ejemplo\<lparr>calls := [FindUnique VehiculoModel 1]\<rparr>) = tables ejemplo
   \<and> filter is_write (new_calls ejemplo (ejemplo\<lparr>calls := [FindUnique VehiculoModel 1]\<rparr>)) = []
   \<and> actualizarServicioRecogida Number 7
     \<lparr>u_clienteId = None, u_vehiculoId = None, u_trabajadorId = None, u_fecha = None,
      u_volumen_recogido_m3 = Some (Number 0)\<rparr> ejemplo
     = (Inl VolumenNoPositivo, ejemplo\<lparr>calls := [FindUnique ServicioRecogidaModel 7]\<rparr>)
   \<and> tables (ejemplo\<lparr>calls := [FindUnique ServicioRecogidaModel 7]\<rparr>) = tables ejemplo
   \<and> filter is_write (new_calls ejemplo (ejemplo\<lparr>calls := [FindUnique ServicioRecogidaModel 7]\<rparr>)) = []"
proof -
  let ?d = "\<lparr>c_clienteId = 1, c_vehiculoId = 1, c_trabajadorId = 1, c_fecha = Date 0,
             c_volumen_recogido_m3 = Number 25\<rparr>"
  let ?u = "\<lparr>u_clienteId = None, u_vehiculoId = None, u_trabajadorId = None, u_fecha = None,
             u_volumen_recogido_m3 = Some (Number 0)\<rparr>"
  have c: "crearServicioRecogida ?d ejemplo
     = (Inl (ExcedeCapacidad (Number 25) 20), ejemplo\<lparr>calls := [FindUnique VehiculoModel 1]\<rparr>)"
    by (simp add: crearServicioRecogida_def store_call_defs ejemplo_defs Let_def)
  have u: "actualizarServicioRecogida Number 7 ?u ejemplo
     = (Inl VolumenNoPositivo, ejemplo\<lparr>calls := [FindUnique ServicioRecogidaModel 7]\<rparr>)"
    by (simp add: actualizarServicioRecogida_def store_call_defs ejemplo_defs Let_def)
  note t = validation_precedes_persistence [where data = ?d and p = ejemplo and upd = ?u
             and i = 7 and toNumber = Number]
  from t [THEN conjunct1] c
  have c': "tables (ejemplo\<lparr>calls := [FindUnique VehiculoModel 1]\<rparr>) = tables ejemplo
     \<and> filter is_write (new_calls ejemplo (ejemplo\<lparr>calls := [FindUnique VehiculoModel 1]\<rparr>)) = []"
    by simp
  from t [THEN conjunct2] u
  have u': "tables (ejemplo\<lparr>calls := [FindUnique ServicioRecogidaModel 7]\<rparr>) = tables ejemplo
     \<and> filter is_write (new_calls ejemplo (ejemplo\<lparr>calls := [FindUnique ServicioRecogidaModel 7]\<rparr>)) = []"
    by simp
  from c u c' u' show ?thesis by blast
qed

subsection \<open>Updates re-run the validation chain\<close>

text \<open>
  Claim C5 fails on the code at a merged volume that is not a number. The checks of
  \<open>actualizarServicioRecogida\<close> run on the merged values in the order of the chain
  (lemma \<open>actualizar_checks_in_order\<close>), and for every merged volume other than \<open>NaN\<close>
  they are the chain of the specification (lemma
  \<open>actualizar_follows_spec_validation_chain\<close>); but the volume check is the comparison
  \<open>finalVolumenRecogido <= 0\<close> and the capacity check is \<open>greaterThan\<close>, both false
  for \<open>NaN\<close>. An update of record 7 that supplies the volume \<open>NaN\<close> is not refused by
  either: with a missing vehicle the error is the one of the vehicle lookup, and with
  every entity on file the three lookups are made and the write is attempted.
\<close>

theorem actualizar_NaN_volume_passes_checks:
  "actualizarServicioRecogida Decimal_toNumber 7
     \<lparr>u_clienteId = None, u_vehiculoId = Some 99, u_trabajadorId = None, u_fecha = None,
      u_volumen_recogido_m3 = Some NaN\<rparr> ejemplo
   = (Inl (NoEncontrado VehiculoModel 99),
      ejemplo\<lparr>calls := [FindUnique ServicioRecogidaModel 7, FindUnique VehiculoModel 99]\<rparr>)
   \<and> kind (NoEncontrado VehiculoModel 99) = NotFoundError
   \<and> fst (actualizarServicioRecogida Decimal_toNumber 7
     \<lparr>u_clienteId = None, u_vehiculoId = None, u_trabajadorId = None, u_fecha = None,
      u_volumen_recogido_m3 = Some NaN\<rparr> ejemplo) \<noteq> Inl VolumenNoPositivo
   \<and> calls (snd (actualizarServicioRecogida Decimal_toNumber 7
     \<lparr>u_clienteId = None, u_vehiculoId = None, u_trabajadorId = None, u_fecha = None,
      u_volumen_recogido_m3 = Some NaN\<rparr> ejemplo))
     = [FindUnique ServicioRecogidaModel 7, FindUnique VehiculoModel 1, FindUnique ClienteModel 1,
        FindUnique TrabajadorModel 1, Update ServicioRecogidaModel 7]"
  by (simp add: actualizarServicioRecogida_def store_call_defs ejemplo_defs Let_def)


subsection \<open>The capacity rule\<close>

text \<open>
  Claim C6. Let the effective vehicle be on file with a positive capacity (the invariant
  of a vehicle). If the effective volume exceeds the capacity, a create, and an update of a
  record on file, fail right after the vehicle lookup with the error that carries both the
  attempted volume and the capacity. If the effective volume equals the capacity the
  operation does not fail on the capacity rule, and it succeeds when the client and the
  worker are on file and the write goes through.
\<close>

theorem capacity_exceeded_reports_both:
  assumes "vehiculos (tables p) vid = Some veh" and "0 < capacidad_max_m3 veh"
  shows
   "(c_vehiculoId data = vid \<and> number_exceeds (c_volumen_recogido_m3 data) (capacidad_max_m3 veh) \<longrightarrow>
       crearServicioRecogida data p =
         (Inl (ExcedeCapacidad (c_volumen_recogido_m3 data) (capacidad_max_m3 veh)),
          p\<lparr>calls := calls p @ [FindUnique VehiculoModel vid]\<rparr>)
       \<and> kind (ExcedeCapacidad (c_volumen_recogido_m3 data) (capacidad_max_m3 veh))
           = CapacityExceededError)
    \<and> (c_vehiculoId data = vid \<and> c_volumen_recogido_m3 data = Number (capacidad_max_m3 veh) \<longrightarrow>
         (\<forall>e. fst (crearServicioRecogida data p) = Inl e \<longrightarrow> kind e \<noteq> CapacityExceededError)
       \<and> (clientes (tables p) (c_clienteId data) \<noteq> None
            \<and> trabajadores (tables p) (c_trabajadorId data) \<noteq> None
            \<and> \<not> store_fails p \<and> c_fecha data \<noteq> InvalidDate \<longrightarrow>
           (\<exists>s. fst (crearServicioRecogida data p) = Inr s
                \<and> volumen_recogido_m3 s = capacidad_max_m3 veh)))
    \<and> (servicios (tables p) i = Some old
        \<and> nullish (u_vehiculoId upd) (vehiculoId old) = vid
        \<and> nullish (u_volumen_recogido_m3 upd) (toNumber (volumen_recogido_m3 old)) = fv
        \<and> number_exceeds fv (capacidad_max_m3 veh) \<longrightarrow>
       actualizarServicioRecogida toNumber i upd p =
         (Inl (ExcedeCapacidad fv (capacidad_max_m3 veh)),
          p\<lparr>calls := calls p @ [FindUnique ServicioRecogidaModel i, FindUnique VehiculoModel vid]\<rparr>))
    \<and> (servicios (tables p) i = Some old
        \<and> nullish (u_vehiculoId upd) (vehiculoId old) = vid
        \<and> nullish (u_volumen_recogido_m3 upd) (toNumber (volumen_recogido_m3 old))
             = Number (capacidad_max_m3 veh) \<longrightarrow>
         (\<forall>e. fst (actualizarServicioRecogida toNumber i upd p) = Inl e \<longrightarrow> kind e \<noteq> CapacityExceededError)
       \<and> (clientes (tables p) (nullish (u_clienteId upd) (clienteId old)) \<noteq> None
            \<and> trabajadores (tables p) (nullish (u_trabajadorId upd) (trabajadorId old)) \<noteq> None
            \<and> \<not> store_fails p \<and> u_fecha upd \<noteq> Some InvalidDate \<longrightarrow>
           (\<exists>s. fst (actualizarServicioRecogida toNumber i upd p) = Inr s
                \<and> volumen_recogido_m3 s = capacidad_max_m3 veh)))"
proof -
  have le: "\<not> number_le_zero v" if "number_exceeds v (capacidad_max_m3 veh)" for v
    using that assms(2) by (cases v) auto
  show ?thesis
    using assms le
    by (auto simp add: crearServicioRecogida_def actualizarServicioRecogida_def store_call_defs
          Let_def Decimal_greaterThan_new split: date.split option.split)
qed

text \<open>
  The scenario of the specification: on the vehicle of capacity 20 a volume of 25 is
  refused, the error naming 25 and 20; a volume of 20 is accepted.
\<close>

theorem capacity_exceeded_reports_both_witness:
  "vehiculos (tables ejemplo) 1 = Some \<lparr>matricula = ''ABC123'', capacidad_max_m3 = 20,
                                         consumo_combustible_litros = 12\<rparr>
   \<and> crearServicioRecogida
       \<lparr>c_clienteId = 1, c_vehiculoId = 1, c_trabajadorId = 1, c_fecha = Date 0,
        c_volumen_recogido_m3 = Number 25\<rparr> ejemplo
     = (Inl (ExcedeCapacidad (Number 25) 20),
        ejemplo\<lparr>calls := calls ejemplo @ [FindUnique VehiculoModel 1]\<rparr>)
   \<and> (\<exists>s. fst (crearServicioRecogida
               \<lparr>c_clienteId = 1, c_vehiculoId = 1, c_trabajadorId = 1, c_fecha = Date 0,
                c_volumen_recogido_m3 = Number 20\<rparr> ejemplo) = Inr s
          \<and> volumen_recogido_m3 s = 20)"
proof -
  let ?veh = "\<lparr>matricula = ''ABC123'', capacidad_max_m3 = 20, consumo_combustible_litros = 12\<rparr>"
  let ?d25 = "\<lparr>c_clienteId = 1, c_vehiculoId = 1, c_trabajadorId = 1, c_fecha = Date 0,
               c_volumen_recogido_m3 = Number 25\<rparr>"
  let ?d20 = "\<lparr>c_clienteId = 1, c_vehiculoId = 1, c_trabajadorId = 1, c_fecha = Date 0,
               c_volumen_recogido_m3 = Number 20\<rparr>"
  have h1: "vehiculos (tables ejemplo) 1 = Some ?veh" by (simp add: ejemplo_defs)
  have h2: "0 < capacidad_max_m3 ?veh" by simp
  have e: "clientes (tables ejemplo) 1 \<noteq> None \<and> trabajadores (tables ejemplo) 1 \<noteq> None
           \<and> \<not> store_fails ejemplo"
    by (simp add: ejemplo_defs)
  from capacity_exceeded_reports_both [OF h1 h2, where data = ?d25, THEN conjunct1]
  have a: "crearServicioRecogida ?d25 ejemplo
     = (Inl (ExcedeCapacidad (Number 25) 20),
        ejemplo\<lparr>calls := calls ejemplo @ [FindUnique VehiculoModel 1]\<rparr>)"
    by simp
  from capacity_exceeded_reports_both [OF h1 h2, where data = ?d20, THEN conjunct2, THEN conjunct1] e
  have b: "\<exists>s. fst (crearServicioRecogida ?d20 ejemplo) = Inr s \<and> volumen_recogido_m3 s = 20"
    by simp
  from h1 a b show ?thesis by blast
qed

subsection \<open>Update of a record that is not on file\<close>

text \<open>
  Claim C7. When no record is on file under the identifier, \<open>actualizarServicioRecogida\<close>
  fails with the not-found error of the service record. The only call made on the store
  is the lookup of the record: the supplied fields are not looked at, no other entity is
  looked up and nothing is written.
\<close>

theorem actualizar_missing_record:
  assumes "servicios (tables p) i = None"
  shows "actualizarServicioRecogida toNumber i upd p =
           (Inl (NoEncontrado ServicioRecogidaModel i),
            p\<lparr>calls := calls p @ [FindUnique ServicioRecogidaModel i]\<rparr>)
         \<and> kind (NoEncontrado ServicioRecogidaModel i) = NotFoundError"
  using assms by (simp add: actualizarServicioRecogida_def store_call_defs)

theorem actualizar_missing_record_witness:
  "servicios (tables ejemplo) 99 = None
   \<and> actualizarServicioRecogida Number 99
       \<lparr>u_clienteId = Some 5, u_vehiculoId = Some 6, u_trabajadorId = None, u_fecha = None,
        u_volumen_recogido_m3 = Some (Number 0)\<rparr> ejemplo
     = (Inl (NoEncontrado ServicioRecogidaModel 99),
        ejemplo\<lparr>calls := calls ejemplo @ [FindUnique ServicioRecogidaModel 99]\<rparr>)"
proof -
  have h: "servicios (tables ejemplo) 99 = None" by (simp add: ejemplo_defs)
  from actualizar_missing_record [OF h] h show ?thesis by blast
qed

subsection \<open>The merge of an update\<close>

lemma servicioRecogida_update_fields:
  "servicios (tables p) i = Some old \<Longrightarrow> servicioRecogida_update i d p = (Some s, p') \<Longrightarrow>
     clienteId s = w_clienteId d \<and> vehiculoId s = w_vehiculoId d
     \<and> trabajadorId s = w_trabajadorId d \<and> servicio_id s = i
     \<and> (w_fecha d = None \<longrightarrow> fecha s = fecha old)
     \<and> Decimal (volumen_recogido_m3 s) = w_volumen_recogido_m3 d
     \<and> Decimal (costo_servicio s) = w_costo_servicio d"
  by (auto simp add: servicioRecogida_update_def called_def Let_def
        split: if_split_asm option.split_asm decimal.split_asm date.split_asm)

lemma actualizar_result_fields:
  assumes "servicios (tables p) i = Some old"
    and "actualizarServicioRecogida toNumber i upd p = (Inr s, p')"
  shows "clienteId s = nullish (u_clienteId upd) (clienteId old)
       \<and> vehiculoId s = nullish (u_vehiculoId upd) (vehiculoId old)
       \<and> trabajadorId s = nullish (u_trabajadorId upd) (trabajadorId old)
       \<and> (u_fecha upd = None \<longrightarrow> fecha s = fecha old)
       \<and> servicio_id s = i
       \<and> Decimal (volumen_recogido_m3 s) =
           Decimal_new (nullish (u_volumen_recogido_m3 upd) (toNumber (volumen_recogido_m3 old)))
       \<and> (\<exists>cli. clientes (tables p) (clienteId s) = Some cli
             \<and> costo_servicio s =
                 round_half_up 2 (round_significant Decimal_precision
                                    (volumen_recogido_m3 s * tarifa_por_m3 cli)))"
proof -
  from assms have "\<exists>q d cli. servicioRecogida_update i d q = (Some s, p')
      \<and> servicios (tables q) i = Some old
      \<and> w_clienteId d = nullish (u_clienteId upd) (clienteId old)
      \<and> w_vehiculoId d = nullish (u_vehiculoId upd) (vehiculoId old)
      \<and> w_trabajadorId d = nullish (u_trabajadorId upd) (trabajadorId old)
      \<and> w_fecha d = u_fecha upd
      \<and> w_volumen_recogido_m3 d =
           Decimal_new (nullish (u_volumen_recogido_m3 upd) (toNumber (volumen_recogido_m3 old)))
      \<and> clientes (tables p) (w_clienteId d) = Some cli
      \<and> w_costo_servicio d = toDecimalPlaces_ROUND_HALF_UP 2
           (Decimal_times (w_volumen_recogido_m3 d) (Decimal (tarifa_por_m3 cli)))"
    by (auto simp add: actualizarServicioRecogida_def vehiculo_findUnique_def
          cliente_findUnique_def trabajador_findUnique_def servicioRecogida_findUnique_def
          called_def Let_def
          split: if_split_asm option.split_asm prod.split_asm intro!: exI)
  then obtain q d cli where q: "servicios (tables q) i = Some old"
    and u: "servicioRecogida_update i d q = (Some s, p')"
    and d: "w_clienteId d = nullish (u_clienteId upd) (clienteId old)"
      "w_vehiculoId d = nullish (u_vehiculoId upd) (vehiculoId old)"
      "w_trabajadorId d = nullish (u_trabajadorId upd) (trabajadorId old)"
      "w_fecha d = u_fecha upd"
      "w_volumen_recogido_m3 d =
         Decimal_new (nullish (u_volumen_recogido_m3 upd) (toNumber (volumen_recogido_m3 old)))"
    and c: "clientes (tables p) (w_clienteId d) = Some cli"
      "w_costo_servicio d = toDecimalPlaces_ROUND_HALF_UP 2
           (Decimal_times (w_volumen_recogido_m3 d) (Decimal (tarifa_por_m3 cli)))"
    by blast
  note f = servicioRecogida_update_fields [OF q u]
  from f have v: "w_volumen_recogido_m3 d = Decimal (volumen_recogido_m3 s)" by simp
  from f c(2) have "costo_servicio s =
      round_half_up 2 (round_significant Decimal_precision
                         (volumen_recogido_m3 s * tarifa_por_m3 cli))"
    by (simp add: v)
  with f d c(1) show ?thesis by simp
qed

text \<open>
  Some values of \<open>Decimal.toNumber()\<close>: 0.1 and -2.5 are kept; \<open>2^53 + 1\<close> is not a
  number and becomes \<open>2^53\<close>; \<open>10^23\<close> is kept although the number nearest to it is
  not \<open>10^23\<close>; 0.30000000000000001 becomes 0.3.
\<close>

lemma Decimal_toNumber_examples:
  "Decimal_toNumber (1 / 10) = Number (1 / 10)
   \<and> Decimal_toNumber (- (25 / 10)) = Number (- (25 / 10))
   \<and> Decimal_toNumber 9007199254740993 = Number 9007199254740992
   \<and> Decimal_toNumber (10 ^ 23) = Number (10 ^ 23)
   \<and> Decimal_toNumber (3 / 10 + 1 / 10 ^ 17) = Number (3 / 10)"
  by code_simp

text \<open>
  The decimal that \<open>Number::toString\<close> prints for a binary64 number reads back as that
  number, so \<open>Decimal.toNumber()\<close> gives such a decimal back as it is. Every volume
  that the workflow writes is one of these: it is \<open>new Prisma.Decimal(n)\<close> for a number
  \<open>n\<close>.
\<close>

lemma int_power_pos: "0 < b \<Longrightarrow> 0 < int_power b k"
  by (simp add: int_power_def)

lemma binary64_zero: "binary64 0 = 0"
  by (simp add: binary64_def round_half_even_def Let_def)

lemma binary64_shortest_from:
  "binary64 x = x \<Longrightarrow> binary64 (shortest_from n k x) = x"
proof (induction n k x rule: shortest_from.induct)
  case (1 n k x)
  then show ?case
    by (subst shortest_from.simps) (auto simp add: Let_def)
qed

lemma shortest_from_pos:
  "0 < x \<Longrightarrow> 0 < shortest_from n k x"
proof (induction n k x rule: shortest_from.induct)
  case (1 n k x)
  let ?unit = "int_power 10 (k - n)"
  let ?lo = "of_int \<lfloor>x / ?unit\<rfloor> * ?unit"
  have u: "0 < ?unit" by (simp add: int_power_pos)
  with 1(2) have "0 \<le> x / ?unit" by simp
  then have "0 \<le> \<lfloor>x / ?unit\<rfloor>" by simp
  with u have lo: "0 \<le> ?lo" by simp
  have lo': "0 < ?lo" if "binary64 ?lo = x"
  proof (rule ccontr)
    assume "\<not> 0 < ?lo"
    with lo have "?lo = 0" by simp
    with that binary64_zero 1(2) show False by simp
  qed
  from lo u have hi: "0 < ?lo + ?unit" by linarith
  from 1 lo' hi show ?case
    by (subst shortest_from.simps) (auto simp add: Let_def)
qed

lemma Decimal_toNumber_Number_toString_value:
  assumes "0 < x" and "binary64 x = x" and "ilog 2 x \<le> 1023"
  shows "Decimal_toNumber (Number_toString_value x) = Number (Number_toString_value x)"
proof -
  let ?d = "Number_toString_value x"
  have p: "0 < ?d" unfolding Number_toString_value_def by (rule shortest_from_pos [OF assms(1)])
  have b: "binary64 ?d = x"
    unfolding Number_toString_value_def by (rule binary64_shortest_from [OF assms(2)])
  from p b assms show ?thesis
    by (simp add: Decimal_toNumber_def Let_def)
qed

text \<open>
  A JavaScript number takes one of finitely many values, and no conversion with a finite
  range gives back every decimal.
\<close>

lemma toNumber_not_exact_on_all_decimals:
  assumes "finite (range toNumber)"
  shows "\<exists>q. Decimal_new (toNumber q) \<noteq> Decimal q"
proof (rule ccontr)
  assume "\<not> (\<exists>q. Decimal_new (toNumber q) \<noteq> Decimal q)"
  then have eq: "Decimal_new (toNumber q) = Decimal q" for q by blast
  have "toNumber q = Number q" for q
    using eq [of q] by (cases "toNumber q") simp_all
  then have "toNumber = Number" by (rule ext)
  with assms have "finite (range (Number :: rat \<Rightarrow> number))" by simp
  moreover have "inj (Number :: rat \<Rightarrow> number)" by (simp add: inj_on_def)
  ultimately have "finite (UNIV :: rat set)" by (rule finite_imageD)
  then show False by (simp add: infinite_UNIV_char_0)
qed

text \<open>
  Claim C4, as stated, fails: the round trip of the stored volume through the merge is not
  exact for every decimal. The record under identifier 5 holds the volume
  0.1234567890123456789; an update of it that supplies no field converts the volume with
  \<open>toNumber()\<close>, validates the result and writes it back: the record now holds
  0.12345678901234568.
\<close>

theorem merge_rewrites_stored_volume:
  "servicios (tables ejemplo) 5 =
     Some \<lparr>servicio_id = 5, clienteId = 1, vehiculoId = 1, trabajadorId = 1, fecha = 0,
           volumen_recogido_m3 = 1234567890123456789 / 10 ^ 19, costo_servicio = 68 / 100\<rparr>
   \<and> fst (actualizarServicioRecogida Decimal_toNumber 5
            \<lparr>u_clienteId = None, u_vehiculoId = None, u_trabajadorId = None, u_fecha = None,
             u_volumen_recogido_m3 = None\<rparr> ejemplo)
     = Inr \<lparr>servicio_id = 5, clienteId = 1, vehiculoId = 1, trabajadorId = 1, fecha = 0,
            volumen_recogido_m3 = 12345678901234568 / 10 ^ 17, costo_servicio = 68 / 100\<rparr>
   \<and> (12345678901234568 / 10 ^ 17 :: rat) \<noteq> 1234567890123456789 / 10 ^ 19"
  by code_simp

text \<open>
  Claim C4, amended. For a record on file, the checks are made on the merged values (each
  supplied value, or else the value on file, the volume on file converted by
  \<open>toNumber()\<close>), and an update that returns a record has persisted those merged values:
  the identifiers, the date when none is supplied, the decimal of the merged volume, and
  the cost computed from that volume and the rate of the merged client. When no volume is
  supplied and \<open>toNumber()\<close> gives the stored volume back, the volume on file is kept as
  it is; with the conversion of the library that is so for every stored volume that is
  the decimal printed for a positive finite number.
\<close>

theorem merge_takes_values_on_file:
  assumes "servicios (tables p) i = Some old"
  shows
   "(case workflow_checks (tables p)
            (nullish (u_volumen_recogido_m3 upd) (toNumber (volumen_recogido_m3 old)))
            (nullish (u_vehiculoId upd) (vehiculoId old))
            (nullish (u_clienteId upd) (clienteId old))
            (nullish (u_trabajadorId upd) (trabajadorId old)) of
       Some e \<Rightarrow> fst (actualizarServicioRecogida toNumber i upd p) = Inl e
     | None \<Rightarrow> fst (actualizarServicioRecogida toNumber i upd p) = Inl NoSePudoActualizar
               \<or> (\<exists>s. fst (actualizarServicioRecogida toNumber i upd p) = Inr s))
    \<and> (actualizarServicioRecogida toNumber i upd p = (Inr s, p') \<longrightarrow>
         clienteId s = nullish (u_clienteId upd) (clienteId old)
       \<and> vehiculoId s = nullish (u_vehiculoId upd) (vehiculoId old)
       \<and> trabajadorId s = nullish (u_trabajadorId upd) (trabajadorId old)
       \<and> (u_fecha upd = None \<longrightarrow> fecha s = fecha old)
       \<and> Decimal (volumen_recogido_m3 s) =
           Decimal_new (nullish (u_volumen_recogido_m3 upd) (toNumber (volumen_recogido_m3 old)))
       \<and> (\<exists>cli. clientes (tables p) (clienteId s) = Some cli
             \<and> costo_servicio s =
                 round_half_up 2 (round_significant Decimal_precision
                                    (volumen_recogido_m3 s * tarifa_por_m3 cli)))
       \<and> (u_volumen_recogido_m3 upd = None
            \<and> toNumber (volumen_recogido_m3 old) = Number (volumen_recogido_m3 old) \<longrightarrow>
          volumen_recogido_m3 s = volumen_recogido_m3 old))
    \<and> (actualizarServicioRecogida Decimal_toNumber i upd p = (Inr s, p')
        \<and> u_volumen_recogido_m3 upd = None
        \<and> volumen_recogido_m3 old = Number_toString_value x
        \<and> 0 < x \<and> binary64 x = x \<and> ilog 2 x \<le> 1023 \<longrightarrow>
       volumen_recogido_m3 s = volumen_recogido_m3 old)"
  (is "?checks \<and> (?returned \<longrightarrow> ?merged) \<and> (?rendering \<longrightarrow> ?kept)")
proof -
  have a: ?checks by (rule actualizar_outcome [OF assms])
  have b: "?returned \<longrightarrow> ?merged"
  proof
    assume u: ?returned
    note f = actualizar_result_fields [OF assms u]
    from f have "u_volumen_recogido_m3 upd = None
            \<and> toNumber (volumen_recogido_m3 old) = Number (volumen_recogido_m3 old) \<longrightarrow>
          volumen_recogido_m3 s = volumen_recogido_m3 old"
      by auto
    with f show ?merged by blast
  qed
  have c: "?rendering \<longrightarrow> ?kept"
  proof
    assume r: ?rendering
    then have u: "actualizarServicioRecogida Decimal_toNumber i upd p = (Inr s, p')" by blast
    from r have "Decimal_toNumber (volumen_recogido_m3 old) = Number (volumen_recogido_m3 old)"
      by (simp add: Decimal_toNumber_Number_toString_value)
    with actualizar_result_fields [OF assms u] r show ?kept by simp
  qed
  show ?thesis by (rule conjI [OF a conjI [OF b c]])
qed

text \<open>
  In the example store record 7 has volume 15, the decimal printed for the number 15,
  which \<open>toNumber()\<close> gives back: an update that supplies only the worker succeeds and
  keeps the volume, the client, the vehicle and the date of the record.
\<close>

theorem merge_takes_values_on_file_witness:
  "servicios (tables ejemplo) 7 =
     Some \<lparr>servicio_id = 7, clienteId = 1, vehiculoId = 1, trabajadorId = 1,
           fecha = 0, volumen_recogido_m3 = 15, costo_servicio = 165 / 2\<rparr>
   \<and> Number_toString_value 15 = 15 \<and> binary64 15 = 15 \<and> ilog 2 15 \<le> 1023
   \<and> Decimal_toNumber 15 = Number 15
   \<and> (\<exists>s p'. actualizarServicioRecogida Decimal_toNumber 7
            \<lparr>u_clienteId = None, u_vehiculoId = None, u_trabajadorId = Some 1, u_fecha = None,
             u_volumen_recogido_m3 = None\<rparr> ejemplo = (Inr s, p')
        \<and> volumen_recogido_m3 s = 15 \<and> clienteId s = 1 \<and> vehiculoId s = 1
        \<and> trabajadorId s = 1 \<and> fecha s = 0)"
proof -
  let ?old = "\<lparr>servicio_id = 7, clienteId = 1, vehiculoId = 1, trabajadorId = 1,
               fecha = 0, volumen_recogido_m3 = 15, costo_servicio = 165 / 2\<rparr>"
  let ?u = "\<lparr>u_clienteId = None, u_vehiculoId = None, u_trabajadorId = Some 1, u_fecha = None,
             u_volumen_recogido_m3 = None\<rparr>"
  let ?r = "actualizarServicioRecogida Decimal_toNumber 7 ?u ejemplo"
  have h: "servicios (tables ejemplo) 7 = Some ?old" by (simp add: ejemplo_defs)
  have x: "Number_toString_value 15 = 15 \<and> binary64 15 = 15 \<and> ilog 2 15 \<le> 1023" by code_simp
  have n: "Decimal_toNumber 15 = Number 15" by code_simp
  have "\<not> isl (fst ?r)" by code_simp
  then obtain s where "fst ?r = Inr s" by (cases "fst ?r") auto
  then have r: "?r = (Inr s, snd ?r)" by (metis prod.collapse)
  note t = merge_takes_values_on_file [OF h, where toNumber = Decimal_toNumber and upd = ?u
             and s = s and p' = "snd ?r" and x = 15]
  from t [THEN conjunct2, THEN conjunct1] r
  have ids: "clienteId s = 1 \<and> vehiculoId s = 1 \<and> trabajadorId s = 1 \<and> fecha s = 0"
    by simp
  from t [THEN conjunct2, THEN conjunct2] r x
  have "volumen_recogido_m3 s = 15"
    by simp
  with h x n r ids show ?thesis by blast
qed

subsection \<open>Delete\<close>

text \<open>
  Claim C8, as stated, fails: deleting an identifier that is not on file does fail, but
  with the error that wraps any failure of the store call ("No se pudo eliminar el
  servicio de recogida."), which is the error a store failure on an existing record gives
  too; it is not a not-found error.
\<close>

theorem eliminar_absent_not_NotFoundError:
  "servicios (tables ejemplo) 99 = None
   \<and> fst (eliminarServicioRecogida 99 ejemplo) = Inl NoSePudoEliminar
   \<and> kind NoSePudoEliminar \<noteq> NotFoundError
   \<and> fst (eliminarServicioRecogida 7 (ejemplo\<lparr>store_fails := True\<rparr>)) = Inl NoSePudoEliminar"
  by (simp add: eliminarServicioRecogida_def store_call_defs ejemplo_defs Let_def)

text \<open>
  Claim C8, amended. Deleting an identifier that is not on file fails with the wrapped
  store error, of kind \<open>PersistenceError\<close>, after the one delete call, and leaves the
  tables as they are, so a repeated call fails in the same way; a failure of the store
  gives the same error. Deleting an identifier that is on file, when the store call goes
  through, returns the record and removes it and nothing else.
\<close>

theorem eliminar_fails_with_wrapped_error:
  "(servicios (tables p) i = None \<longrightarrow>
      eliminarServicioRecogida i p =
        (Inl NoSePudoEliminar, p\<lparr>calls := calls p @ [Delete ServicioRecogidaModel i]\<rparr>)
      \<and> fst (eliminarServicioRecogida i (snd (eliminarServicioRecogida i p))) = Inl NoSePudoEliminar
      \<and> tables (snd (eliminarServicioRecogida i (snd (eliminarServicioRecogida i p)))) = tables p)
   \<and> (store_fails p \<longrightarrow>
      eliminarServicioRecogida i p =
        (Inl NoSePudoEliminar, p\<lparr>calls := calls p @ [Delete ServicioRecogidaModel i]\<rparr>))
   \<and> kind NoSePudoEliminar = PersistenceError
   \<and> (servicios (tables p) i = Some s \<and> \<not> store_fails p \<longrightarrow>
      fst (eliminarServicioRecogida i p) = Inr s
      \<and> servicios (tables (snd (eliminarServicioRecogida i p))) = (servicios (tables p))(i := None))"
  by (auto simp add: eliminarServicioRecogida_def store_call_defs Let_def)

theorem eliminar_fails_with_wrapped_error_witness:
  "servicios (tables ejemplo) 99 = None
   \<and> eliminarServicioRecogida 99 ejemplo =
        (Inl NoSePudoEliminar, ejemplo\<lparr>calls := calls ejemplo @ [Delete ServicioRecogidaModel 99]\<rparr>)
   \<and> \<not> store_fails ejemplo
   \<and> fst (eliminarServicioRecogida 7 ejemplo) =
        Inr \<lparr>servicio_id = 7, clienteId = 1, vehiculoId = 1, trabajadorId = 1,
             fecha = 0, volumen_recogido_m3 = 15, costo_servicio = 165 / 2\<rparr>
   \<and> servicios (tables (snd (eliminarServicioRecogida 7 ejemplo))) 7 = None"
proof -
  let ?old = "\<lparr>servicio_id = 7, clienteId = 1, vehiculoId = 1, trabajadorId = 1,
               fecha = 0, volumen_recogido_m3 = 15, costo_servicio = 165 / 2\<rparr>"
  have h1: "servicios (tables ejemplo) 99 = None" by (simp add: ejemplo_defs)
  have h2: "servicios (tables ejemplo) 7 = Some ?old" by (simp add: ejemplo_defs)
  have h3: "\<not> store_fails ejemplo" by (simp add: ejemplo_defs)
  from eliminar_fails_with_wrapped_error [where p = ejemplo and i = 99, THEN conjunct1] h1
  have a: "eliminarServicioRecogida 99 ejemplo =
        (Inl NoSePudoEliminar, ejemplo\<lparr>calls := calls ejemplo @ [Delete ServicioRecogidaModel 99]\<rparr>)"
    by simp
  from eliminar_fails_with_wrapped_error [where p = ejemplo and i = 7 and s = ?old] h2 h3
  have b: "fst (eliminarServicioRecogida 7 ejemplo) = Inr ?old
     \<and> servicios (tables (snd (eliminarServicioRecogida 7 ejemplo))) 7 = None"
    by simp
  from h1 a h3 b show ?thesis by blast
qed


section \<open>Properties of \<open>serializeBigInt\<close>\<close>

lemma replacer_simps [simp]:
  "replacer key (JBigInt i) = JString (BigInt_toString i)"
  "replacer key JUndefined = JUndefined"
  "replacer key JNull = JNull"
  "replacer key (JBool b) = JBool b"
  "replacer key (JNumber n) = JNumber n"
  "replacer key (JString s) = JString s"
  "replacer key (JArray xs) = JArray xs"
  "replacer key (JObject ms) = JObject ms"
  by (simp_all add: replacer_def)

lemma CreateDataProperty_fresh:
  "k \<notin> fst ` set obj \<Longrightarrow> CreateDataProperty obj k v = obj @ [(k, v)]"
  by (induction obj) auto

lemma parse_members_distinct:
  "distinct (map fst obj @ map fst ts) \<Longrightarrow>
   parse_members obj ts = obj @ map (\<lambda>(k, t). (k, JSON_parse t)) ts"
proof (induction ts arbitrary: obj)
  case Nil
  then show ?case by simp
next
  case (Cons a ts)
  obtain k t where a: "a = (k, t)" by (cases a)
  from Cons.prems a have fresh: "k \<notin> fst ` set obj" by auto
  from Cons.prems a have "distinct (map fst (obj @ [(k, JSON_parse t)]) @ map fst ts)" by auto
  from Cons.IH [OF this] fresh a show ?case
    by (simp add: CreateDataProperty_fresh)
qed

text \<open>
  On a serializable value the text is produced, and reading it back gives the value with
  its bigints replaced; by induction along the three serialisation functions.
\<close>

lemma stringify_parse:
  "json_serializable v \<Longrightarrow>
     \<exists>t. SerializeJSONProperty key v = Inr (Some t) \<and> JSON_parse t = bigints_as_strings v"
  "json_serializable_list xs \<Longrightarrow>
     \<exists>ts. SerializeJSONArray index xs = Inr ts \<and> parse_elements ts = bigints_as_strings_list xs"
  "json_serializable_members ms \<Longrightarrow>
     \<exists>ts. SerializeJSONObject ms = Inr ts \<and> map fst ts = map fst ms
        \<and> map (\<lambda>(k, t). (k, JSON_parse t)) ts = bigints_as_strings_members ms"
proof (induction key v and index xs and ms
       rule: SerializeJSONProperty_SerializeJSONArray_SerializeJSONObject.induct)
  case (1 key v)
  show ?case
  proof (cases v)
    case (JArray xs)
    with 1(3) have "json_serializable_list xs" by simp
    with 1(1) [of xs] JArray obtain ts where
      "SerializeJSONArray 0 xs = Inr ts" "parse_elements ts = bigints_as_strings_list xs"
      by auto
    with JArray show ?thesis by simp
  next
    case (JObject ms)
    with 1(3) have d: "distinct (map fst ms)" and s: "json_serializable_members ms" by simp_all
    from 1(2) [of ms] JObject s obtain ts where ts: "SerializeJSONObject ms = Inr ts"
      "map fst ts = map fst ms" "map (\<lambda>(k, t). (k, JSON_parse t)) ts = bigints_as_strings_members ms"
      by auto
    from d ts(2) have "distinct (map fst ([]::(string \<times> js_value) list) @ map fst ts)" by simp
    from parse_members_distinct [OF this] ts JObject show ?thesis by simp
  next
    case (JNumber n)
    with 1(3) show ?thesis by (cases n) simp_all
  next
    case JUndefined
    with 1(3) show ?thesis by simp
  next
    case JNull
    then show ?thesis by simp
  next
    case (JBool b)
    then show ?thesis by simp
  next
    case (JString s)
    then show ?thesis by simp
  next
    case (JBigInt i)
    then show ?thesis by simp
  qed
next
  case (2 index)
  show ?case by simp
next
  case (3 index x xs)
  from 3(3) have sx: "json_serializable x" and sxs: "json_serializable_list xs" by simp_all
  from 3(1) [OF sx] obtain t where t: "SerializeJSONProperty (digits_of_nat index) x = Inr (Some t)"
    "JSON_parse t = bigints_as_strings x" by auto
  from 3(2) [OF t(1) sxs] obtain ts where ts: "SerializeJSONArray (index + 1) xs = Inr ts"
    "parse_elements ts = bigints_as_strings_list xs" by auto
  have "SerializeJSONArray index (x # xs) = Inr (t # ts)"
    by (simp only: SerializeJSONArray.simps t(1) ts(1) sum.case option.case)
  with t(2) ts(2) show ?case by simp
next
  case 4
  show ?case by simp
next
  case (5 k x ms)
  from 5(3) have sx: "json_serializable x" and sms: "json_serializable_members ms" by simp_all
  from 5(1) [OF sx] obtain t where t: "SerializeJSONProperty k x = Inr (Some t)"
    "JSON_parse t = bigints_as_strings x" by auto
  from 5(2) [OF t(1) sms] obtain ts where ts: "SerializeJSONObject ms = Inr ts"
    "map fst ts = map fst ms"
    "map (\<lambda>(k, t). (k, JSON_parse t)) ts = bigints_as_strings_members ms" by auto
  have "SerializeJSONObject ((k, x) # ms) = Inr ((k, t) # ts)"
    by (simp only: SerializeJSONObject.simps t(1) ts(1) sum.case option.case append.simps)
  with t(2) ts(2,3) show ?case by simp
qed

text \<open>The base-10 string of a bigint reads back as the bigint.\<close>

lemma of_char_digit_char: "d < 10 \<Longrightarrow> (of_char (digit_char d) :: nat) = 48 + d"
proof -
  assume "d < 10"
  then have "d \<in> {0, 1, 2, 3, 4, 5, 6, 7, 8, 9}" by auto
  then show ?thesis by (auto simp add: digit_char_def)
qed

lemma digit_value_digit_char: "d < 10 \<Longrightarrow> digit_value (digit_char d) = Some d"
  by (simp add: digit_value_def Let_def of_char_digit_char)

lemma parse_digits_append:
  "parse_digits b acc (xs @ ys) =
     (case parse_digits b acc xs of None \<Rightarrow> None | Some a \<Rightarrow> parse_digits b a ys)"
  by (induction xs arbitrary: acc) (auto split: option.split)

lemma parse_digits_digits_of_nat: "parse_digits 10 0 (digits_of_nat n) = Some n"
proof (induction n rule: digits_of_nat.induct)
  case (1 n)
  show ?case
  proof (cases "n < 10")
    case True
    then show ?thesis
      by (subst digits_of_nat.simps) (simp add: digit_value_digit_char)
  next
    case False
    with 1 have ih: "parse_digits 10 0 (digits_of_nat (n div 10)) = Some (n div 10)" by simp
    have "n mod 10 < 10" by simp
    with False ih show ?thesis
      by (subst digits_of_nat.simps) (simp add: parse_digits_append digit_value_digit_char)
  qed
qed

lemma digits_of_nat_range:
  "c \<in> set (digits_of_nat n) \<Longrightarrow> 48 \<le> (of_char c :: nat) \<and> (of_char c :: nat) \<le> 57"
proof (induction n rule: digits_of_nat.induct)
  case (1 n)
  show ?case
  proof (cases "n < 10")
    case True
    with 1(2) have "c = digit_char n" by (subst (asm) digits_of_nat.simps) simp
    with True show ?thesis by (simp add: of_char_digit_char)
  next
    case False
    with 1(2) have "c \<in> set (digits_of_nat (n div 10)) \<or> c = digit_char (n mod 10)"
      by (subst (asm) digits_of_nat.simps) auto
    with 1(1) False show ?thesis by (auto simp add: of_char_digit_char)
  qed
qed

lemma digits_of_nat_nonempty: "digits_of_nat n \<noteq> []"
  by (subst digits_of_nat.simps) simp

lemma digit_not_special:
  assumes "48 \<le> (of_char c :: nat)" and "(of_char c :: nat) \<le> 57"
  shows "\<not> is_whitespace c" and "c \<noteq> CHR ''+''" and "c \<noteq> CHR ''-''"
    and "c \<notin> set ''xX''" and "c \<notin> set ''oO''" and "c \<notin> set ''bB''"
  using assms by (auto simp add: is_whitespace_def)

lemma trim_id:
  assumes "str \<noteq> []" and "\<not> is_whitespace (hd str)" and "\<not> is_whitespace (last str)"
  shows "trim str = str"
proof -
  from assms(2) have a: "dropWhile is_whitespace str = str"
    by (simp add: dropWhile_eq_self_iff)
  from assms(1,3) have "dropWhile is_whitespace (rev str) = rev str"
    by (simp add: dropWhile_eq_self_iff hd_rev)
  with a show ?thesis by (simp add: trim_def)
qed

lemma BigInt_toString_roundtrip: "StringToBigInt (BigInt_toString i) = Some i"
proof -
  define n where "n = nat \<bar>i\<bar>"
  define ds where "ds = digits_of_nat n"
  have ne: "ds \<noteq> []" by (simp add: ds_def digits_of_nat_nonempty)
  have rng: "48 \<le> (of_char c :: nat) \<and> (of_char c :: nat) \<le> 57" if "c \<in> set ds" for c
    using that digits_of_nat_range by (simp add: ds_def)
  have p: "parse_integer 10 ds = Some n"
    using ne by (simp add: parse_integer_def ds_def parse_digits_digits_of_nat)
  obtain c cs where ds: "ds = c # cs" using ne by (cases ds) auto
  have hdc: "48 \<le> (of_char c :: nat) \<and> (of_char c :: nat) \<le> 57" using rng ds by simp
  have lastc: "\<not> is_whitespace (last ds)"
    using rng [of "last ds"] ne digit_not_special(1) by simp
  show ?thesis
  proof (cases "i < 0")
    case True
    then have s: "BigInt_toString i = CHR ''-'' # ds"
      by (simp add: BigInt_toString_def ds_def n_def)
    have "trim (CHR ''-'' # ds) = CHR ''-'' # ds"
      using lastc ne by (intro trim_id) (simp_all add: is_whitespace_def)
    with s p True show ?thesis by (simp add: StringToBigInt_def n_def)
  next
    case False
    then have "n = nat i" by (simp add: n_def)
    with False ds have s: "BigInt_toString i = c # cs"
      by (simp add: BigInt_toString_def ds_def)
    have t: "trim (c # cs) = c # cs"
      using lastc ds hdc digit_not_special(1) by (intro trim_id) simp_all
    have x: "cs \<noteq> [] \<Longrightarrow> hd cs \<notin> set ''xX'' \<and> hd cs \<notin> set ''oO'' \<and> hd cs \<notin> set ''bB''"
      using rng [of "hd cs"] ds digit_not_special(4-6) [of "hd cs"] by simp
    from hdc have y: "c \<noteq> CHR ''+''" "c \<noteq> CHR ''-''" using digit_not_special(2,3) by simp_all
    from s t x y p ds False show ?thesis
      by (auto simp add: StringToBigInt_def n_def)
  qed
qed

lemmas BigInt_toString_eval = BigInt_toString_def digits_of_nat.simps digit_char_def

text \<open>
  Outside the serializable values the result is not the input with its bigints replaced:
  \<open>undefined\<close> and \<open>NaN\<close> in an array come back as \<open>null\<close>, an undefined property
  is dropped, and \<open>undefined\<close> itself makes \<open>JSON.parse\<close> throw.
\<close>

lemma serializeBigInt_outside_domain:
  "serializeBigInt (JArray [JUndefined, JNumber NaN]) = Inr (JArray [JNull, JNull])"
  "serializeBigInt (JObject [(''a'', JUndefined), (''b'', JBigInt 2)]) = Inr (JObject [(''b'', JString ''2'')])"
  "serializeBigInt JUndefined = Inl SyntaxError"
  by (simp_all add: serializeBigInt_def BigInt_toString_eval)

text \<open>
  Claim C9. For every JSON-serializable value (the JSON data model with \<open>bigint\<close>
  admitted) \<open>serializeBigInt\<close> returns the value in which every bigint, at any depth, is
  replaced by its base-10 string and everything else is as it was. The string determines
  the bigint: converting it back gives the same integer, of any size.
\<close>

theorem serializeBigInt_replaces_bigints:
  "(json_serializable v \<longrightarrow> serializeBigInt v = Inr (bigints_as_strings v))
   \<and> StringToBigInt (BigInt_toString i) = Some i
   \<and> (BigInt_toString i = BigInt_toString j \<longrightarrow> i = j)"
proof -
  have a: "serializeBigInt v = Inr (bigints_as_strings v)" if "json_serializable v"
  proof -
    from stringify_parse(1) [OF that, of "[]"] obtain t
      where "SerializeJSONProperty [] v = Inr (Some t)" "JSON_parse t = bigints_as_strings v"
      by blast
    then show ?thesis by (simp only: serializeBigInt_def sum.case option.case)
  qed
  have b: "i = j" if "BigInt_toString i = BigInt_toString j"
  proof -
    have "Some i = StringToBigInt (BigInt_toString i)" by (simp only: BigInt_toString_roundtrip)
    also have "\<dots> = StringToBigInt (BigInt_toString j)" by (simp only: that)
    also have "\<dots> = Some j" by (simp only: BigInt_toString_roundtrip)
    finally show ?thesis by simp
  qed
  from a b BigInt_toString_roundtrip [of i] show ?thesis by blast
qed

text \<open>A record-like object whose identifier is beyond \<open>2^53\<close>.\<close>

theorem serializeBigInt_replaces_bigints_witness:
  "json_serializable
     (JObject [(''id'', JBigInt 9007199254740993), (''clienteId'', JBigInt 1),
               (''etiquetas'', JArray [JNull, JBool True, JNumber (Number (3 / 2)), JString ''x''])])
   \<and> serializeBigInt
     (JObject [(''id'', JBigInt 9007199254740993), (''clienteId'', JBigInt 1),
               (''etiquetas'', JArray [JNull, JBool True, JNumber (Number (3 / 2)), JString ''x''])])
     = Inr (JObject [(''id'', JString ''9007199254740993''), (''clienteId'', JString ''1''),
               (''etiquetas'', JArray [JNull, JBool True, JNumber (Number (3 / 2)), JString ''x''])])
   \<and> StringToBigInt ''9007199254740993'' = Some 9007199254740993"
proof -
  let ?v = "JObject [(''id'', JBigInt 9007199254740993), (''clienteId'', JBigInt 1),
               (''etiquetas'', JArray [JNull, JBool True, JNumber (Number (3 / 2)), JString ''x''])]"
  have h: "json_serializable ?v" by simp
  have s: "BigInt_toString 9007199254740993 = ''9007199254740993''" "BigInt_toString 1 = ''1''"
    by (simp_all add: BigInt_toString_eval)
  note t = serializeBigInt_replaces_bigints [where v = ?v and i = 9007199254740993]
  from t [THEN conjunct1] h s
  have a: "serializeBigInt ?v
     = Inr (JObject [(''id'', JString ''9007199254740993''), (''clienteId'', JString ''1''),
               (''etiquetas'', JArray [JNull, JBool True, JNumber (Number (3 / 2)), JString ''x''])])"
    by simp
  from t [THEN conjunct2, THEN conjunct1] s
  have b: "StringToBigInt ''9007199254740993'' = Some 9007199254740993" by simp
  from h a b show ?thesis by blast
qed


section \<open>Properties of the PUT handler\<close>

lemma supplied_as_when_truthy:
  "supplied_as rt x opt \<longleftrightarrow> when_truthy x (BigInt rt) = Inr opt"
  by (auto simp add: supplied_as_def when_truthy_def split: option.splits sum.splits)

lemma handler_PUT_data:
  assumes "truthy (get_property body ''id'')" and "BigInt rt (get_property body ''id'') = Inr i"
    and "supplied_as rt (get_property body ''clienteId'') oc"
    and "supplied_as rt (get_property body ''vehiculoId'') ov"
    and "supplied_as rt (get_property body ''trabajadorId'') ot"
  shows "handler_PUT rt body p =
     (case actualizarServicioRecogida (rt_toNumber rt) i
             \<lparr>u_clienteId = oc, u_vehiculoId = ov, u_trabajadorId = ot,
              u_fecha = (if truthy (get_property body ''fecha'')
                         then Some (rt_Date rt (get_property body ''fecha'')) else None),
              u_volumen_recogido_m3 =
                (if get_property body ''volumen_recogido_m3'' \<noteq> JUndefined
                 then Some (parseFloat rt (get_property body ''volumen_recogido_m3'')) else None)\<rparr> p of
        (Inl e, p') \<Rightarrow> (Response 500 (ErrorMessage (Thrown e)), p')
      | (Inr s, p') \<Rightarrow> (Response 200 (Servicio s), p'))"
proof -
  from assms(1) have "body \<noteq> JUndefined" "body \<noteq> JNull" by auto
  with assms show ?thesis
    by (simp add: handler_PUT_def Let_def supplied_as_when_truthy)
qed

lemma handler_PUT_200:
  assumes "handler_PUT rt body p = (Response 200 (Servicio s), p')"
  shows "\<exists>i oc ov ot.
      when_truthy (get_property body ''clienteId'') (BigInt rt) = Inr oc
    \<and> when_truthy (get_property body ''vehiculoId'') (BigInt rt) = Inr ov
    \<and> when_truthy (get_property body ''trabajadorId'') (BigInt rt) = Inr ot
    \<and> BigInt rt (get_property body ''id'') = Inr i
    \<and> actualizarServicioRecogida (rt_toNumber rt) i
             \<lparr>u_clienteId = oc, u_vehiculoId = ov, u_trabajadorId = ot,
              u_fecha = (if truthy (get_property body ''fecha'')
                         then Some (rt_Date rt (get_property body ''fecha'')) else None),
              u_volumen_recogido_m3 =
                (if get_property body ''volumen_recogido_m3'' \<noteq> JUndefined
                 then Some (parseFloat rt (get_property body ''volumen_recogido_m3'')) else None)\<rparr> p
         = (Inr s, p')"
  using assms
  by (simp add: handler_PUT_def Let_def split: if_split_asm sum.split_asm prod.split_asm)


text \<open>
  A body whose volume is \<open>null\<close> reaches the workflow as the volume \<open>NaN\<close>, and is not
  answered with the volume error.
\<close>

lemma handler_PUT_NaN_volume:
  "parseFloat ejemplo_runtime JNull = NaN
   \<and> fst (handler_PUT ejemplo_runtime
       (JObject [(''id'', JNumber (Number 7)), (''vehiculoId'', JNumber (Number 99)),
                 (''volumen_recogido_m3'', JNull)]) ejemplo)
     = Response 500 (ErrorMessage (Thrown (NoEncontrado VehiculoModel 99)))"
  by code_simp

text \<open>
  Claim C10. In the PUT handler, with an identifier that is truthy and converts, the
  fields \<open>clienteId\<close>, \<open>vehiculoId\<close> and \<open>trabajadorId\<close> reach the workflow as
  undefined whenever they are falsy (\<open>0\<close>, the empty string, \<open>null\<close>, a missing
  field) and \<open>fecha\<close> likewise, while \<open>volumen_recogido_m3\<close> is passed on whenever it is
  not \<open>undefined\<close>. So a body with volume \<open>0\<close>, for a record on file, is answered with
  the positive-volume error of the workflow after the lookup of the record, and in an
  update that succeeds every falsy field has kept the value of the record on file.
\<close>

theorem put_handler_falsy_fields:
  assumes "truthy (get_property body ''id'')" and "BigInt rt (get_property body ''id'') = Inr i"
  shows
   "(supplied_as rt (get_property body ''clienteId'') oc
       \<and> supplied_as rt (get_property body ''vehiculoId'') ov
       \<and> supplied_as rt (get_property body ''trabajadorId'') ot \<longrightarrow>
      handler_PUT rt body p =
        (case actualizarServicioRecogida (rt_toNumber rt) i
                \<lparr>u_clienteId = oc, u_vehiculoId = ov, u_trabajadorId = ot,
                 u_fecha = (if truthy (get_property body ''fecha'')
                            then Some (rt_Date rt (get_property body ''fecha'')) else None),
                 u_volumen_recogido_m3 =
                   (if get_property body ''volumen_recogido_m3'' \<noteq> JUndefined
                    then Some (parseFloat rt (get_property body ''volumen_recogido_m3''))
                    else None)\<rparr> p of
           (Inl e, p') \<Rightarrow> (Response 500 (ErrorMessage (Thrown e)), p')
         | (Inr s, p') \<Rightarrow> (Response 200 (Servicio s), p')))
    \<and> (supplied_as rt (get_property body ''clienteId'') oc
       \<and> supplied_as rt (get_property body ''vehiculoId'') ov
       \<and> supplied_as rt (get_property body ''trabajadorId'') ot
       \<and> get_property body ''volumen_recogido_m3'' = JNumber (Number 0)
       \<and> servicios (tables p) i = Some old \<longrightarrow>
      handler_PUT rt body p =
        (Response 500 (ErrorMessage (Thrown VolumenNoPositivo)),
         p\<lparr>calls := calls p @ [FindUnique ServicioRecogidaModel i]\<rparr>))
    \<and> (servicios (tables p) i = Some old
       \<and> handler_PUT rt body p = (Response 200 (Servicio s), p') \<longrightarrow>
        (\<not> truthy (get_property body ''clienteId'') \<longrightarrow> clienteId s = clienteId old)
      \<and> (\<not> truthy (get_property body ''vehiculoId'') \<longrightarrow> vehiculoId s = vehiculoId old)
      \<and> (\<not> truthy (get_property body ''trabajadorId'') \<longrightarrow> trabajadorId s = trabajadorId old)
      \<and> (\<not> truthy (get_property body ''fecha'') \<longrightarrow> fecha s = fecha old))"
  (is "?A \<and> ?B \<and> ?C")
proof -
  have A: ?A
  proof (rule impI)
  assume "supplied_as rt (get_property body ''clienteId'') oc
       \<and> supplied_as rt (get_property body ''vehiculoId'') ov
       \<and> supplied_as rt (get_property body ''trabajadorId'') ot"
  with handler_PUT_data [OF assms, of oc ov ot p]
  show "handler_PUT rt body p =
        (case actualizarServicioRecogida (rt_toNumber rt) i
                \<lparr>u_clienteId = oc, u_vehiculoId = ov, u_trabajadorId = ot,
                 u_fecha = (if truthy (get_property body ''fecha'')
                            then Some (rt_Date rt (get_property body ''fecha'')) else None),
                 u_volumen_recogido_m3 =
                   (if get_property body ''volumen_recogido_m3'' \<noteq> JUndefined
                    then Some (parseFloat rt (get_property body ''volumen_recogido_m3''))
                    else None)\<rparr> p of
           (Inl e, p') \<Rightarrow> (Response 500 (ErrorMessage (Thrown e)), p')
         | (Inr s, p') \<Rightarrow> (Response 200 (Servicio s), p'))"
    by blast
  qed
  have B: ?B
  proof (rule impI)
  assume a: "supplied_as rt (get_property body ''clienteId'') oc
       \<and> supplied_as rt (get_property body ''vehiculoId'') ov
       \<and> supplied_as rt (get_property body ''trabajadorId'') ot
       \<and> get_property body ''volumen_recogido_m3'' = JNumber (Number 0)
       \<and> servicios (tables p) i = Some old"
  then have "handler_PUT rt body p =
        (case actualizarServicioRecogida (rt_toNumber rt) i
                \<lparr>u_clienteId = oc, u_vehiculoId = ov, u_trabajadorId = ot,
                 u_fecha = (if truthy (get_property body ''fecha'')
                            then Some (rt_Date rt (get_property body ''fecha'')) else None),
                 u_volumen_recogido_m3 = Some (Number 0)\<rparr> p of
           (Inl e, p') \<Rightarrow> (Response 500 (ErrorMessage (Thrown e)), p')
         | (Inr s, p') \<Rightarrow> (Response 200 (Servicio s), p'))"
    using handler_PUT_data [OF assms, of oc ov ot p] by simp
  with a show "handler_PUT rt body p =
        (Response 500 (ErrorMessage (Thrown VolumenNoPositivo)),
         p\<lparr>calls := calls p @ [FindUnique ServicioRecogidaModel i]\<rparr>)"
    by (simp add: actualizarServicioRecogida_def servicioRecogida_findUnique_def called_def)
  qed
  have C: ?C
  proof (rule impI)
  assume a: "servicios (tables p) i = Some old
       \<and> handler_PUT rt body p = (Response 200 (Servicio s), p')"
  from handler_PUT_200 [of rt body p s p'] a assms(2) obtain oc ov ot where
    w: "when_truthy (get_property body ''clienteId'') (BigInt rt) = Inr oc"
       "when_truthy (get_property body ''vehiculoId'') (BigInt rt) = Inr ov"
       "when_truthy (get_property body ''trabajadorId'') (BigInt rt) = Inr ot"
    and u: "actualizarServicioRecogida (rt_toNumber rt) i
             \<lparr>u_clienteId = oc, u_vehiculoId = ov, u_trabajadorId = ot,
              u_fecha = (if truthy (get_property body ''fecha'')
                         then Some (rt_Date rt (get_property body ''fecha'')) else None),
              u_volumen_recogido_m3 =
                (if get_property body ''volumen_recogido_m3'' \<noteq> JUndefined
                 then Some (parseFloat rt (get_property body ''volumen_recogido_m3'')) else None)\<rparr> p
         = (Inr s, p')"
    by auto
  from a have old: "servicios (tables p) i = Some old" by simp
  note f = actualizar_result_fields [OF old u]
  from f w have c1: "\<not> truthy (get_property body ''clienteId'') \<longrightarrow> clienteId s = clienteId old"
    by (auto simp add: when_truthy_def)
  from f w have c2: "\<not> truthy (get_property body ''vehiculoId'') \<longrightarrow> vehiculoId s = vehiculoId old"
    by (auto simp add: when_truthy_def)
  from f w have c3: "\<not> truthy (get_property body ''trabajadorId'') \<longrightarrow> trabajadorId s = trabajadorId old"
    by (auto simp add: when_truthy_def)
  from f have c4: "\<not> truthy (get_property body ''fecha'') \<longrightarrow> fecha s = fecha old"
    by simp
  from c1 c2 c3 c4
  show "(\<not> truthy (get_property body ''clienteId'') \<longrightarrow> clienteId s = clienteId old)
      \<and> (\<not> truthy (get_property body ''vehiculoId'') \<longrightarrow> vehiculoId s = vehiculoId old)
      \<and> (\<not> truthy (get_property body ''trabajadorId'') \<longrightarrow> trabajadorId s = trabajadorId old)
      \<and> (\<not> truthy (get_property body ''fecha'') \<longrightarrow> fecha s = fecha old)"
    by blast
  qed
  show ?thesis by (rule conjI [OF A conjI [OF B C]])
qed


text \<open>
  On record 7 of the example store: a body with \<open>clienteId: 0\<close>, \<open>vehiculoId: ""\<close>
  and \<open>volumen_recogido_m3: 0\<close> is answered 500 with the volume error; a body with only
  \<open>clienteId: 0\<close> is answered 200 with the client of the record unchanged.
\<close>

theorem put_handler_falsy_fields_witness:
  "truthy (JNumber (Number 7)) \<and> BigInt ejemplo_runtime (JNumber (Number 7)) = Inr 7
   \<and> \<not> truthy (JNumber (Number 0)) \<and> \<not> truthy (JString '''') \<and> \<not> truthy JUndefined
   \<and> handler_PUT ejemplo_runtime
        (JObject [(''id'', JNumber (Number 7)), (''clienteId'', JNumber (Number 0)),
                  (''vehiculoId'', JString ''''), (''volumen_recogido_m3'', JNumber (Number 0))])
        ejemplo
      = (Response 500 (ErrorMessage (Thrown VolumenNoPositivo)),
         ejemplo\<lparr>calls := calls ejemplo @ [FindUnique ServicioRecogidaModel 7]\<rparr>)
   \<and> (\<exists>p'. handler_PUT ejemplo_runtime
        (JObject [(''id'', JNumber (Number 7)), (''clienteId'', JNumber (Number 0))]) ejemplo
      = (Response 200 (Servicio \<lparr>servicio_id = 7, clienteId = 1, vehiculoId = 1, trabajadorId = 1,
                                 fecha = 0, volumen_recogido_m3 = 15, costo_servicio = 165 / 2\<rparr>), p'))"
proof -
  let ?b1 = "JObject [(''id'', JNumber (Number 7)), (''clienteId'', JNumber (Number 0)),
                  (''vehiculoId'', JString ''''), (''volumen_recogido_m3'', JNumber (Number 0))]"
  let ?b2 = "JObject [(''id'', JNumber (Number 7)), (''clienteId'', JNumber (Number 0))]"
  let ?old = "\<lparr>servicio_id = 7, clienteId = 1, vehiculoId = 1, trabajadorId = 1,
               fecha = 0, volumen_recogido_m3 = 15, costo_servicio = 165 / 2\<rparr>"
  have t: "truthy (JNumber (Number 7))" by simp
  have f: "\<not> truthy (JNumber (Number 0))" "\<not> truthy (JString '''')" "\<not> truthy JUndefined"
    by simp_all
  have i: "BigInt ejemplo_runtime (JNumber (Number 7)) = Inr 7" by simp
  have old: "servicios (tables ejemplo) 7 = Some ?old" by (simp add: ejemplo_defs)
  have t1: "truthy (get_property ?b1 ''id'')" and i1: "BigInt ejemplo_runtime (get_property ?b1 ''id'') = Inr 7"
    by simp_all
  have t2: "truthy (get_property ?b2 ''id'')" and i2: "BigInt ejemplo_runtime (get_property ?b2 ''id'') = Inr 7"
    by simp_all
  from put_handler_falsy_fields [OF t1 i1, where oc = None and ov = None and ot = None
         and p = ejemplo and old = ?old, THEN conjunct2, THEN conjunct1] old
  have a: "handler_PUT ejemplo_runtime ?b1 ejemplo
      = (Response 500 (ErrorMessage (Thrown VolumenNoPositivo)),
         ejemplo\<lparr>calls := calls ejemplo @ [FindUnique ServicioRecogidaModel 7]\<rparr>)"
    by (simp add: supplied_as_def)
  have "fst (actualizarServicioRecogida (rt_toNumber ejemplo_runtime) 7
              \<lparr>u_clienteId = None, u_vehiculoId = None, u_trabajadorId = None,
               u_fecha = None, u_volumen_recogido_m3 = None\<rparr> ejemplo) = Inr ?old"
    by code_simp
  then have u: "\<exists>p'. actualizarServicioRecogida (rt_toNumber ejemplo_runtime) 7
              \<lparr>u_clienteId = None, u_vehiculoId = None, u_trabajadorId = None,
               u_fecha = None, u_volumen_recogido_m3 = None\<rparr> ejemplo = (Inr ?old, p')"
    by (metis prod.collapse)
  from put_handler_falsy_fields [OF t2 i2, where oc = None and ov = None and ot = None
         and p = ejemplo, THEN conjunct1] u
  have b: "\<exists>p'. handler_PUT ejemplo_runtime ?b2 ejemplo = (Response 200 (Servicio ?old), p')"
    by (auto simp add: supplied_as_def)
  from t i f a b show ?thesis by blast
qed

end
